theory Spec2Isabelle
  imports Complex_Main
begin

section \<open>Data model (types/brand.ts, types/customer.ts, types/conversation.ts)\<close>

text \<open>
  The zod enumerations become datatypes. Identifiers (uuid strings) stay strings.
  A timestamp is the instant an ISO-8601 string of \<^verbatim>\<open>new Date().toISOString()\<close>
  denotes, counted in milliseconds; the TIMESTAMPTZ columns are compared as instants.
  A JSON metadata object is kept as its serialised text.
\<close>

datatype brand_id = Gnymble | Percymd | Percytext

datatype customer_stage =
  StageLead | StageMarketing | StageTrial | StageActive | StageChurned | StageDormant

datatype customer_source =
  Website | SmsCampaign | EmailCampaign | Referral | Organic | PaidAds | Social | Other

datatype message_direction = Inbound | Outbound

datatype message_status = Pending | Sent | Delivered | Failed | Undelivered

datatype conversation_status = StatusActive | StatusPaused | StatusCompleted | StatusArchived

type_synonym uuid = string
type_synonym timestamp = nat
type_synonym json = string

record brand_config =
  cfg_id :: brand_id
  cfg_name :: string
  cfg_domain :: string
  cfg_platform_domain :: string
  cfg_primary_color :: string
  cfg_logo_url :: string
  cfg_support_email :: string
  cfg_is_active :: bool

record brand_context =
  ctx_brand_id :: brand_id
  ctx_config :: brand_config
  ctx_user_id :: "uuid option"
  ctx_is_admin :: "bool option"

fun getBrandConfig :: "brand_id \<Rightarrow> brand_config" where
  "getBrandConfig Gnymble =
     \<lparr>cfg_id = Gnymble, cfg_name = ''Gnymble'', cfg_domain = ''gnymble.com'',
      cfg_platform_domain = ''app.gnymble.com'', cfg_primary_color = ''#4F46E5'',
      cfg_logo_url = ''/brands/gnymble/logo.svg'',
      cfg_support_email = ''support@gnymble.com'', cfg_is_active = True\<rparr>"
| "getBrandConfig Percymd =
     \<lparr>cfg_id = Percymd, cfg_name = ''PercyMD'', cfg_domain = ''percymd.com'',
      cfg_platform_domain = ''app.percymd.com'', cfg_primary_color = ''#059669'',
      cfg_logo_url = ''/brands/percymd/logo.svg'',
      cfg_support_email = ''support@percymd.com'', cfg_is_active = True\<rparr>"
| "getBrandConfig Percytext =
     \<lparr>cfg_id = Percytext, cfg_name = ''PercyText'', cfg_domain = ''percytext.com'',
      cfg_platform_domain = ''app.percytext.com'', cfg_primary_color = ''#DC2626'',
      cfg_logo_url = ''/brands/percytext/logo.svg'',
      cfg_support_email = ''support@percytext.com'', cfg_is_active = True\<rparr>"

record customer =
  cust_id :: uuid
  cust_brand_id :: brand_id
  cust_email :: string
  cust_phone :: "string option"
  cust_first_name :: "string option"
  cust_last_name :: "string option"
  cust_stage :: customer_stage
  cust_source :: customer_source
  cust_is_active :: bool
  cust_marketing_qualified_at :: "timestamp option"
  cust_trial_started_at :: "timestamp option"
  cust_subscribed_at :: "timestamp option"
  cust_churned_at :: "timestamp option"
  cust_metadata :: "json option"
  cust_tags :: "string list option"
  cust_created_at :: timestamp
  cust_updated_at :: timestamp
  cust_created_by :: "uuid option"

text \<open>
  UpdateCustomer is the partial projection of the customer schema: a field that is
  absent (\<open>None\<close>) is not sent and the column keeps its value.
\<close>

record update_customer =
  upd_email :: "string option"
  upd_phone :: "string option"
  upd_first_name :: "string option"
  upd_last_name :: "string option"
  upd_stage :: "customer_stage option"
  upd_is_active :: "bool option"
  upd_marketing_qualified_at :: "timestamp option"
  upd_trial_started_at :: "timestamp option"
  upd_subscribed_at :: "timestamp option"
  upd_churned_at :: "timestamp option"
  upd_metadata :: "json option"
  upd_tags :: "string list option"

record conversation =
  conv_id :: uuid
  conv_brand_id :: brand_id
  conv_customer_id :: uuid
  conv_customer_phone :: string
  conv_brand_phone :: string
  conv_status :: conversation_status
  conv_campaign_id :: "uuid option"
  conv_campaign_name :: "string option"
  conv_message_count :: int
  conv_last_message_at :: "timestamp option"
  conv_last_inbound_at :: "timestamp option"
  conv_last_outbound_at :: "timestamp option"
  conv_opted_out_at :: "timestamp option"
  conv_opt_out_reason :: "string option"
  conv_metadata :: "json option"
  conv_tags :: "string list option"
  conv_created_at :: timestamp
  conv_updated_at :: timestamp

record create_conversation =
  cc_customer_id :: uuid
  cc_customer_phone :: string
  cc_brand_phone :: string
  cc_campaign_id :: "uuid option"
  cc_campaign_name :: "string option"
  cc_metadata :: "json option"
  cc_tags :: "string list option"

record message =
  msg_id :: uuid
  msg_conversation_id :: uuid
  msg_direction :: message_direction
  msg_content :: string
  msg_media_urls :: "string list option"
  msg_status :: "message_status option"
  msg_external_id :: "string option"
  msg_metadata :: "json option"
  msg_sent_at :: timestamp
  msg_delivered_at :: "timestamp option"
  msg_created_at :: timestamp

record create_message =
  cm_conversation_id :: uuid
  cm_direction :: message_direction
  cm_content :: string
  cm_media_urls :: "string list option"
  cm_external_id :: "string option"
  cm_metadata :: "json option"

text \<open>A thrown \<^verbatim>\<open>new Error(msg)\<close> is the value \<open>Error msg\<close>.\<close>

datatype op_error = Error string

section \<open>The connection singleton (client/supabase.ts)\<close>

record supabase_client =
  sb_url :: string
  sb_anon_key :: string
  sb_persist_session :: bool

record process_env =
  NEXT_PUBLIC_SUPABASE_URL :: "string option"
  NEXT_PUBLIC_SUPABASE_ANON_KEY :: "string option"

text \<open>
  JavaScript truthiness of an optional string: \<^verbatim>\<open>undefined\<close> and the empty string
  are falsy. \<open>js_or a b\<close> is \<^verbatim>\<open>a || b\<close>.
\<close>

definition truthy :: "string option \<Rightarrow> bool" where
  "truthy v = (case v of None \<Rightarrow> False | Some s \<Rightarrow> s \<noteq> [])"

definition js_or :: "string option \<Rightarrow> string option \<Rightarrow> string option" where
  "js_or a b = (if truthy a then a else b)"

text \<open>
  \<^verbatim>\<open>createClient\<close> belongs to the client library, which is not part of the repository.
  It is a parameter of construction: called with a URL, a key and
  \<^verbatim>\<open>{ auth: { persistSession: false } }\<close> it returns a handle or throws (the library
  rejects, for one, a URL that is present but malformed).
\<close>

type_synonym create_client = "string \<Rightarrow> string \<Rightarrow> op_error + supabase_client"

text \<open>
  The module variable \<^verbatim>\<open>supabaseClient\<close> is passed in and returned: the result is
  the thrown error or the handle, together with the variable's new value. When
  \<^verbatim>\<open>createClient\<close> throws, the assignment is not reached and the variable stays null.
\<close>

definition createSupabaseClient ::
  "create_client \<Rightarrow> string option \<Rightarrow> string option \<Rightarrow> process_env \<Rightarrow> supabase_client option
     \<Rightarrow> (op_error + supabase_client) \<times> supabase_client option" where
  "createSupabaseClient createClient url anonKey env supabaseClient =
     (case supabaseClient of
        Some c \<Rightarrow> (Inr c, Some c)
      | None \<Rightarrow>
          (let supabaseUrl = js_or url (NEXT_PUBLIC_SUPABASE_URL env);
               supabaseAnonKey = js_or anonKey (NEXT_PUBLIC_SUPABASE_ANON_KEY env)
           in if \<not> truthy supabaseUrl \<or> \<not> truthy supabaseAnonKey
              then (Inl (Error ''Missing Supabase configuration''), None)
              else (case (supabaseUrl, supabaseAnonKey) of
                      (Some u, Some k) \<Rightarrow>
                        (case createClient u k of
                           Inl e \<Rightarrow> (Inl e, None)
                         | Inr c \<Rightarrow> (Inr c, Some c))
                    | _ \<Rightarrow> (Inl (Error ''Missing Supabase configuration''), None))))"

definition getSupabaseClient ::
  "create_client \<Rightarrow> process_env \<Rightarrow> supabase_client option
     \<Rightarrow> (op_error + supabase_client) \<times> supabase_client option" where
  "getSupabaseClient createClient env supabaseClient =
     (case supabaseClient of
        None \<Rightarrow> createSupabaseClient createClient None None env supabaseClient
      | Some c \<Rightarrow> (Inr c, Some c))"

record brand_aware_supabase =
  bas_client :: supabase_client
  bas_brandContext :: brand_context

text \<open>The constructor of \<^verbatim>\<open>BrandAwareSupabase\<close>: \<^verbatim>\<open>client || getSupabaseClient()\<close>.\<close>

definition BrandAwareSupabase ::
  "create_client \<Rightarrow> brand_context \<Rightarrow> supabase_client option \<Rightarrow> process_env
     \<Rightarrow> supabase_client option
     \<Rightarrow> (op_error + brand_aware_supabase) \<times> supabase_client option" where
  "BrandAwareSupabase createClient brandContext client env supabaseClient =
     (case client of
        Some c \<Rightarrow> (Inr \<lparr>bas_client = c, bas_brandContext = brandContext\<rparr>, supabaseClient)
      | None \<Rightarrow>
          (case getSupabaseClient createClient env supabaseClient of
             (Inl e, s) \<Rightarrow> (Inl e, s)
           | (Inr c, s) \<Rightarrow> (Inr \<lparr>bas_client = c, bas_brandContext = brandContext\<rparr>, s)))"

definition createBrandClient ::
  "create_client \<Rightarrow> brand_context \<Rightarrow> process_env \<Rightarrow> supabase_client option
     \<Rightarrow> (op_error + brand_aware_supabase) \<times> supabase_client option" where
  "createBrandClient createClient brandContext env supabaseClient =
     BrandAwareSupabase createClient brandContext None env supabaseClient"

section \<open>The hosted store\<close>

text \<open>
  The store is the external service behind the connection: three tables with the
  constraints of schemas/tables.sql, answering each request with rows or with an
  error object carrying a code and a message. What the store contributes to one
  request is a \<open>store_call\<close>: a failure from outside the tables (network, permissions,
  malformed filter) if there is one, in which case the request is rejected and the
  tables stay as they are; the server clock read by the \<^verbatim>\<open>updated_at\<close> triggers; and the
  identifier produced by \<^verbatim>\<open>uuid_generate_v4()\<close>.
\<close>

record pg_error =
  err_code :: string
  err_message :: string

record db =
  customers_tbl :: "customer list"
  conversations_tbl :: "conversation list"
  messages_tbl :: "message list"

record store_call =
  call_fault :: "pg_error option"
  call_now :: timestamp
  call_uuid :: uuid

definition no_rows :: pg_error where
  "no_rows = \<lparr>err_code = ''PGRST116'',
              err_message = ''JSON object requested, multiple (or no) rows returned''\<rparr>"

text \<open>The messages name the table and the constraint between double quotes.\<close>

definition quoted :: "string \<Rightarrow> string" where
  "quoted name = [CHR 0x22] @ name @ [CHR 0x22]"

definition unique_violation :: "string \<Rightarrow> pg_error" where
  "unique_violation cname =
     \<lparr>err_code = ''23505'',
      err_message = ''duplicate key value violates unique constraint '' @ quoted cname\<rparr>"

definition foreign_key_violation :: "string \<Rightarrow> string \<Rightarrow> pg_error" where
  "foreign_key_violation tname cname =
     \<lparr>err_code = ''23503'',
      err_message = ''insert or update on table '' @ quoted tname
                      @ '' violates foreign key constraint '' @ quoted cname\<rparr>"

text \<open>A read ending in \<^verbatim>\<open>.single()\<close>: exactly one matching row, or the no-rows error.\<close>

definition select_single :: "store_call \<Rightarrow> 'a list \<Rightarrow> pg_error + 'a" where
  "select_single call rows =
     (case call_fault call of
        Some e \<Rightarrow> Inl e
      | None \<Rightarrow> (case rows of [r] \<Rightarrow> Inr r | _ \<Rightarrow> Inl no_rows))"

definition select_rows :: "store_call \<Rightarrow> 'a list \<Rightarrow> pg_error + 'a list" where
  "select_rows call rows =
     (case call_fault call of Some e \<Rightarrow> Inl e | None \<Rightarrow> Inr rows)"

text \<open>
  PRIMARY KEY (id), UNIQUE (brand_id, email) and UNIQUE (brand_id, phone) of customers
  (a NULL phone never collides); PRIMARY KEY (id) and
  UNIQUE (brand_id, customer_phone, brand_phone) of conversations; PRIMARY KEY (id)
  of messages; the two foreign keys.
\<close>

definition customers_constraints :: "customer list \<Rightarrow> bool" where
  "customers_constraints tbl \<longleftrightarrow>
     distinct (map cust_id tbl) \<and>
     distinct (map (\<lambda>c. (cust_brand_id c, cust_email c)) tbl) \<and>
     distinct (map (\<lambda>c. (cust_brand_id c, cust_phone c))
                 (filter (\<lambda>c. cust_phone c \<noteq> None) tbl))"

definition conversations_constraints :: "conversation list \<Rightarrow> bool" where
  "conversations_constraints tbl \<longleftrightarrow>
     distinct (map conv_id tbl) \<and>
     distinct (map (\<lambda>c. (conv_brand_id c, conv_customer_phone c, conv_brand_phone c)) tbl)"

definition constraints_hold :: "db \<Rightarrow> bool" where
  "constraints_hold d \<longleftrightarrow>
     customers_constraints (customers_tbl d) \<and>
     conversations_constraints (conversations_tbl d) \<and>
     distinct (map msg_id (messages_tbl d)) \<and>
     list_all (\<lambda>c. conv_customer_id c \<in> set (map cust_id (customers_tbl d)))
       (conversations_tbl d) \<and>
     list_all (\<lambda>m. msg_conversation_id m \<in> set (map conv_id (conversations_tbl d)))
       (messages_tbl d)"

text \<open>\<^verbatim>\<open>.insert(row).select().single()\<close> on conversations and on messages.\<close>

definition insert_conversation ::
  "store_call \<Rightarrow> conversation \<Rightarrow> db \<Rightarrow> (pg_error + conversation) \<times> db" where
  "insert_conversation call row d =
     (case call_fault call of
        Some e \<Rightarrow> (Inl e, d)
      | None \<Rightarrow>
          if conv_id row \<in> set (map conv_id (conversations_tbl d))
          then (Inl (unique_violation ''conversations_pkey''), d)
          else if (conv_brand_id row, conv_customer_phone row, conv_brand_phone row)
                    \<in> set (map (\<lambda>c. (conv_brand_id c, conv_customer_phone c, conv_brand_phone c))
                             (conversations_tbl d))
          then (Inl (unique_violation ''conversations_brand_phones_unique''), d)
          else if conv_customer_id row \<notin> set (map cust_id (customers_tbl d))
          then (Inl (foreign_key_violation ''conversations'' ''conversations_customer_id_fkey''), d)
          else (Inr row, d\<lparr>conversations_tbl := conversations_tbl d @ [row]\<rparr>))"

definition insert_message ::
  "store_call \<Rightarrow> message \<Rightarrow> db \<Rightarrow> (pg_error + message) \<times> db" where
  "insert_message call row d =
     (case call_fault call of
        Some e \<Rightarrow> (Inl e, d)
      | None \<Rightarrow>
          if msg_id row \<in> set (map msg_id (messages_tbl d))
          then (Inl (unique_violation ''messages_pkey''), d)
          else if msg_conversation_id row \<notin> set (map conv_id (conversations_tbl d))
          then (Inl (foreign_key_violation ''messages'' ''messages_conversation_id_fkey''), d)
          else (Inr row, d\<lparr>messages_tbl := messages_tbl d @ [row]\<rparr>))"

text \<open>
  \<^verbatim>\<open>.update(values).eq(...)\<close>: every row the filter selects takes the new values, and the
  BEFORE UPDATE trigger then stamps \<^verbatim>\<open>updated_at\<close> with the server clock. A statement
  that would break a constraint is rejected as a whole. Without \<^verbatim>\<open>.single()\<close> a
  statement that selects no row is not an error; with \<^verbatim>\<open>.select().single()\<close> anything
  but exactly one updated row is answered with the no-rows error and nothing is
  written.
\<close>

definition update_conversations ::
  "store_call \<Rightarrow> (conversation \<Rightarrow> bool) \<Rightarrow> (conversation \<Rightarrow> conversation) \<Rightarrow> db
     \<Rightarrow> pg_error option \<times> db" where
  "update_conversations call P upd d =
     (case call_fault call of
        Some e \<Rightarrow> (Some e, d)
      | None \<Rightarrow>
          (let tbl' = map (\<lambda>c. if P c then (upd c)\<lparr>conv_updated_at := call_now call\<rparr> else c)
                        (conversations_tbl d)
           in if \<not> conversations_constraints tbl'
              then (Some (unique_violation ''conversations''), d)
              else (None, d\<lparr>conversations_tbl := tbl'\<rparr>)))"

definition update_customers_single ::
  "store_call \<Rightarrow> (customer \<Rightarrow> bool) \<Rightarrow> (customer \<Rightarrow> customer) \<Rightarrow> db
     \<Rightarrow> (pg_error + customer) \<times> db" where
  "update_customers_single call P upd d =
     (case call_fault call of
        Some e \<Rightarrow> (Inl e, d)
      | None \<Rightarrow>
          (let tbl' = map (\<lambda>c. if P c then (upd c)\<lparr>cust_updated_at := call_now call\<rparr> else c)
                        (customers_tbl d)
           in if \<not> customers_constraints tbl'
              then (Inl (unique_violation ''customers''), d)
              else (case filter P (customers_tbl d) of
                      [c] \<Rightarrow> (Inr ((upd c)\<lparr>cust_updated_at := call_now call\<rparr>),
                               d\<lparr>customers_tbl := tbl'\<rparr>)
                    | _ \<Rightarrow> (Inl no_rows, d))))"

section \<open>The brand-filtered starting points (class BrandAwareSupabase)\<close>

text \<open>
  \<^verbatim>\<open>this.client.from(t).select('*').eq('brand_id', this.brandContext.brand_id)\<close>: the rows
  a query started from the getter ranges over. \<^verbatim>\<open>raw\<close> is the whole table.
\<close>

definition customers :: "brand_context \<Rightarrow> db \<Rightarrow> customer list" where
  "customers ctx d = filter (\<lambda>c. cust_brand_id c = ctx_brand_id ctx) (customers_tbl d)"

definition conversations :: "brand_context \<Rightarrow> db \<Rightarrow> conversation list" where
  "conversations ctx d = filter (\<lambda>c. conv_brand_id c = ctx_brand_id ctx) (conversations_tbl d)"

section \<open>Customer operations (utils/customer-ops.ts)\<close>

text \<open>
  Each operation takes the brand context of its client, one \<open>store_call\<close> for each
  request it awaits, the clock value of each \<^verbatim>\<open>new Date()\<close> it reads, its own
  arguments and the tables. A read returns the thrown error or the value; a write
  returns that together with the tables afterwards.
\<close>

definition customer_getById ::
  "brand_context \<Rightarrow> store_call \<Rightarrow> uuid \<Rightarrow> db \<Rightarrow> op_error + customer option" where
  "customer_getById ctx call i d =
     (case select_single call (filter (\<lambda>c. cust_id c = i) (customers ctx d)) of
        Inl error \<Rightarrow>
          if err_code error = ''PGRST116'' then Inr None
          else Inl (Error (''Failed to get customer: '' @ err_message error))
      | Inr data \<Rightarrow> Inr (Some data))"

definition customer_getByEmail ::
  "brand_context \<Rightarrow> store_call \<Rightarrow> string \<Rightarrow> db \<Rightarrow> op_error + customer option" where
  "customer_getByEmail ctx call email d =
     (case select_single call (filter (\<lambda>c. cust_email c = email) (customers ctx d)) of
        Inl error \<Rightarrow>
          if err_code error = ''PGRST116'' then Inr None
          else Inl (Error (''Failed to get customer by email: '' @ err_message error))
      | Inr data \<Rightarrow> Inr (Some data))"

definition customer_getByPhone ::
  "brand_context \<Rightarrow> store_call \<Rightarrow> string \<Rightarrow> db \<Rightarrow> op_error + customer option" where
  "customer_getByPhone ctx call phone d =
     (case select_single call (filter (\<lambda>c. cust_phone c = Some phone) (customers ctx d)) of
        Inl error \<Rightarrow>
          if err_code error = ''PGRST116'' then Inr None
          else Inl (Error (''Failed to get customer by phone: '' @ err_message error))
      | Inr data \<Rightarrow> Inr (Some data))"

text \<open>The column values of \<^verbatim>\<open>{ ...data, updated_at }\<close> written over a row.\<close>

definition set_customer :: "update_customer \<Rightarrow> timestamp \<Rightarrow> customer \<Rightarrow> customer" where
  "set_customer data updated_at c =
     c\<lparr>cust_email := (case upd_email data of Some v \<Rightarrow> v | None \<Rightarrow> cust_email c),
       cust_phone := (case upd_phone data of Some v \<Rightarrow> Some v | None \<Rightarrow> cust_phone c),
       cust_first_name :=
         (case upd_first_name data of Some v \<Rightarrow> Some v | None \<Rightarrow> cust_first_name c),
       cust_last_name :=
         (case upd_last_name data of Some v \<Rightarrow> Some v | None \<Rightarrow> cust_last_name c),
       cust_stage := (case upd_stage data of Some v \<Rightarrow> v | None \<Rightarrow> cust_stage c),
       cust_is_active := (case upd_is_active data of Some v \<Rightarrow> v | None \<Rightarrow> cust_is_active c),
       cust_marketing_qualified_at :=
         (case upd_marketing_qualified_at data of
            Some v \<Rightarrow> Some v | None \<Rightarrow> cust_marketing_qualified_at c),
       cust_trial_started_at :=
         (case upd_trial_started_at data of Some v \<Rightarrow> Some v | None \<Rightarrow> cust_trial_started_at c),
       cust_subscribed_at :=
         (case upd_subscribed_at data of Some v \<Rightarrow> Some v | None \<Rightarrow> cust_subscribed_at c),
       cust_churned_at :=
         (case upd_churned_at data of Some v \<Rightarrow> Some v | None \<Rightarrow> cust_churned_at c),
       cust_metadata := (case upd_metadata data of Some v \<Rightarrow> Some v | None \<Rightarrow> cust_metadata c),
       cust_tags := (case upd_tags data of Some v \<Rightarrow> Some v | None \<Rightarrow> cust_tags c),
       cust_updated_at := updated_at\<rparr>"

definition customer_update ::
  "brand_context \<Rightarrow> timestamp \<Rightarrow> store_call \<Rightarrow> uuid \<Rightarrow> update_customer \<Rightarrow> db
     \<Rightarrow> (op_error + customer) \<times> db" where
  "customer_update ctx now call i data d =
     (case update_customers_single call
             (\<lambda>c. cust_id c = i \<and> cust_brand_id c = ctx_brand_id ctx)
             (set_customer data now) d of
        (Inl error, d') \<Rightarrow> (Inl (Error (''Failed to update customer: '' @ err_message error)), d')
      | (Inr customer, d') \<Rightarrow> (Inr customer, d'))"

definition no_update :: update_customer where
  "no_update =
     \<lparr>upd_email = None, upd_phone = None, upd_first_name = None, upd_last_name = None,
      upd_stage = None, upd_is_active = None, upd_marketing_qualified_at = None,
      upd_trial_started_at = None, upd_subscribed_at = None, upd_churned_at = None,
      upd_metadata = None, upd_tags = None\<rparr>"

text \<open>\<open>now\<close> is the clock read by progressStage, \<open>now_update\<close> the one read by update.\<close>

definition customer_progressStage ::
  "brand_context \<Rightarrow> timestamp \<Rightarrow> timestamp \<Rightarrow> store_call \<Rightarrow> uuid \<Rightarrow> customer_stage \<Rightarrow> db
     \<Rightarrow> (op_error + customer) \<times> db" where
  "customer_progressStage ctx now now_update call i newStage d =
     (let updateData = no_update\<lparr>upd_stage := Some newStage\<rparr>;
          updateData =
            (case newStage of
               StageMarketing \<Rightarrow> updateData\<lparr>upd_marketing_qualified_at := Some now\<rparr>
             | StageTrial \<Rightarrow> updateData\<lparr>upd_trial_started_at := Some now\<rparr>
             | StageActive \<Rightarrow> updateData\<lparr>upd_subscribed_at := Some now\<rparr>
             | StageChurned \<Rightarrow> updateData\<lparr>upd_churned_at := Some now, upd_is_active := Some False\<rparr>
             | _ \<Rightarrow> updateData)
      in customer_update ctx now_update call i updateData d)"

text \<open>
  \<^verbatim>\<open>[...new Set(xs)]\<close>: a Set keeps each value once, in the order of first insertion.
\<close>

definition set_insert :: "'a \<Rightarrow> 'a list \<Rightarrow> 'a list" where
  "set_insert x acc = (if x \<in> set acc then acc else acc @ [x])"

definition new_Set :: "'a list \<Rightarrow> 'a list" where
  "new_Set xs = fold set_insert xs []"

definition customer_addTags ::
  "brand_context \<Rightarrow> store_call \<Rightarrow> timestamp \<Rightarrow> store_call \<Rightarrow> uuid \<Rightarrow> string list \<Rightarrow> db
     \<Rightarrow> (op_error + customer) \<times> db" where
  "customer_addTags ctx call_get now call_update i tags d =
     (case customer_getById ctx call_get i d of
        Inl e \<Rightarrow> (Inl e, d)
      | Inr None \<Rightarrow> (Inl (Error ''Customer not found''), d)
      | Inr (Some customer) \<Rightarrow>
          (let existingTags = (case cust_tags customer of Some ts \<Rightarrow> ts | None \<Rightarrow> []);
               newTags = new_Set (existingTags @ tags)
           in customer_update ctx now call_update i (no_update\<lparr>upd_tags := Some newTags\<rparr>) d))"

definition customer_removeTags ::
  "brand_context \<Rightarrow> store_call \<Rightarrow> timestamp \<Rightarrow> store_call \<Rightarrow> uuid \<Rightarrow> string list \<Rightarrow> db
     \<Rightarrow> (op_error + customer) \<times> db" where
  "customer_removeTags ctx call_get now call_update i tags d =
     (case customer_getById ctx call_get i d of
        Inl e \<Rightarrow> (Inl e, d)
      | Inr None \<Rightarrow> (Inl (Error ''Customer not found''), d)
      | Inr (Some customer) \<Rightarrow>
          (let existingTags = (case cust_tags customer of Some ts \<Rightarrow> ts | None \<Rightarrow> []);
               newTags = filter (\<lambda>tag. tag \<notin> set tags) existingTags
           in customer_update ctx now call_update i (no_update\<lparr>upd_tags := Some newTags\<rparr>) d))"

subsection \<open>Customer analytics\<close>

text \<open>
  A JavaScript number that results from a division: a finite value, an infinity, or
  NaN. Dividing by zero does not throw; it yields an infinity or NaN. The finite
  quotient is taken exactly, without the rounding of a double.
\<close>

datatype js_number = Finite real | PosInfinity | NegInfinity | NaN

definition js_divide :: "real \<Rightarrow> real \<Rightarrow> js_number" where
  "js_divide a b =
     (if b = 0 then (if a = 0 then NaN else if 0 < a then PosInfinity else NegInfinity)
      else Finite (a / b))"

definition js_times :: "js_number \<Rightarrow> real \<Rightarrow> js_number" where
  "js_times x k =
     (case x of
        Finite r \<Rightarrow> Finite (r * k)
      | PosInfinity \<Rightarrow> (if k = 0 then NaN else if 0 < k then PosInfinity else NegInfinity)
      | NegInfinity \<Rightarrow> (if k = 0 then NaN else if 0 < k then NegInfinity else PosInfinity)
      | NaN \<Rightarrow> NaN)"

text \<open>
  \<open>or_zero v\<close> is \<^verbatim>\<open>v || 0\<close> on a counter that may be undefined, and \<open>increment_key\<close>
  is \<^verbatim>\<open>counters[key] = (counters[key] || 0) + 1\<close>.
\<close>

definition or_zero :: "nat option \<Rightarrow> nat" where
  "or_zero v = (case v of Some n \<Rightarrow> n | None \<Rightarrow> 0)"

definition increment_key :: "'k \<Rightarrow> ('k \<Rightarrow> nat option) \<Rightarrow> ('k \<Rightarrow> nat option)" where
  "increment_key key counters = counters(key := Some (or_zero (counters key) + 1))"

record customer_analytics_row =
  car_stage :: customer_stage
  car_source :: customer_source
  car_created_at :: timestamp
  car_trial_started_at :: "timestamp option"
  car_subscribed_at :: "timestamp option"
  car_churned_at :: "timestamp option"

definition customer_analytics_columns :: "customer \<Rightarrow> customer_analytics_row" where
  "customer_analytics_columns c =
     \<lparr>car_stage = cust_stage c, car_source = cust_source c, car_created_at = cust_created_at c,
      car_trial_started_at = cust_trial_started_at c, car_subscribed_at = cust_subscribed_at c,
      car_churned_at = cust_churned_at c\<rparr>"

record customer_analytics =
  ca_total :: nat
  ca_byStage :: "customer_stage \<rightharpoonup> nat"
  ca_bySource :: "customer_source \<rightharpoonup> nat"
  ca_conversionRate :: js_number
  ca_avgTimeToConversion :: js_number

definition count_customer :: "customer_analytics_row \<Rightarrow> customer_analytics \<Rightarrow> customer_analytics" where
  "count_customer customer analytics =
     analytics\<lparr>ca_byStage := increment_key (car_stage customer) (ca_byStage analytics),
               ca_bySource := increment_key (car_source customer) (ca_bySource analytics)\<rparr>"

definition customer_getAnalytics ::
  "brand_context \<Rightarrow> store_call \<Rightarrow> db \<Rightarrow> op_error + customer_analytics" where
  "customer_getAnalytics ctx call d =
     (case select_rows call
             (map customer_analytics_columns
                (filter (\<lambda>c. cust_brand_id c = ctx_brand_id ctx) (customers_tbl d))) of
        Inl error \<Rightarrow> Inl (Error (''Failed to get customer analytics: '' @ err_message error))
      | Inr data \<Rightarrow>
          (let analytics = \<lparr>ca_total = length data, ca_byStage = Map.empty,
                            ca_bySource = Map.empty, ca_conversionRate = Finite 0,
                            ca_avgTimeToConversion = Finite 0\<rparr>;
               analytics = fold count_customer data analytics;
               leads = or_zero (ca_byStage analytics StageLead);
               active = or_zero (ca_byStage analytics StageActive)
           in Inr (analytics\<lparr>ca_conversionRate :=
                      (if 0 < leads then js_times (js_divide (real active) (real leads)) 100
                       else Finite 0)\<rparr>)))"

section \<open>Conversation operations (utils/conversation-ops.ts)\<close>

definition conversation_create ::
  "brand_context \<Rightarrow> timestamp \<Rightarrow> timestamp \<Rightarrow> store_call \<Rightarrow> create_conversation \<Rightarrow> db
     \<Rightarrow> (op_error + conversation) \<times> db" where
  "conversation_create ctx now_created now_updated call data d =
     (let conversationData =
            \<lparr>conv_id = call_uuid call,
             conv_brand_id = ctx_brand_id ctx,
             conv_customer_id = cc_customer_id data,
             conv_customer_phone = cc_customer_phone data,
             conv_brand_phone = cc_brand_phone data,
             conv_status = StatusActive,
             conv_campaign_id = cc_campaign_id data,
             conv_campaign_name = cc_campaign_name data,
             conv_message_count = 0,
             conv_last_message_at = None,
             conv_last_inbound_at = None,
             conv_last_outbound_at = None,
             conv_opted_out_at = None,
             conv_opt_out_reason = None,
             conv_metadata = cc_metadata data,
             conv_tags = cc_tags data,
             conv_created_at = now_created,
             conv_updated_at = now_updated\<rparr>
      in case insert_conversation call conversationData d of
           (Inl error, d') \<Rightarrow>
             (Inl (Error (''Failed to create conversation: '' @ err_message error)), d')
         | (Inr conversation, d') \<Rightarrow> (Inr conversation, d'))"

definition conversation_getById ::
  "brand_context \<Rightarrow> store_call \<Rightarrow> uuid \<Rightarrow> db \<Rightarrow> op_error + conversation option" where
  "conversation_getById ctx call i d =
     (case select_single call (filter (\<lambda>c. conv_id c = i) (conversations ctx d)) of
        Inl error \<Rightarrow>
          if err_code error = ''PGRST116'' then Inr None
          else Inl (Error (''Failed to get conversation: '' @ err_message error))
      | Inr data \<Rightarrow> Inr (Some data))"

definition conversation_getByPhones ::
  "brand_context \<Rightarrow> store_call \<Rightarrow> string \<Rightarrow> string \<Rightarrow> db \<Rightarrow> op_error + conversation option" where
  "conversation_getByPhones ctx call customerPhone brandPhone d =
     (case select_single call
             (filter (\<lambda>c. conv_status c = StatusActive)
                (filter (\<lambda>c. conv_brand_phone c = brandPhone)
                   (filter (\<lambda>c. conv_customer_phone c = customerPhone) (conversations ctx d)))) of
        Inl error \<Rightarrow>
          if err_code error = ''PGRST116'' then Inr None
          else Inl (Error (''Failed to get conversation by phones: '' @ err_message error))
      | Inr data \<Rightarrow> Inr (Some data))"

text \<open>The optional argument \<^verbatim>\<open>campaignData\<close> of findOrCreate, spread into the input.\<close>

record campaign_data =
  cd_campaign_id :: "uuid option"
  cd_campaign_name :: "string option"

definition conversation_findOrCreate ::
  "brand_context \<Rightarrow> store_call \<Rightarrow> timestamp \<Rightarrow> timestamp \<Rightarrow> store_call
     \<Rightarrow> uuid \<Rightarrow> string \<Rightarrow> string \<Rightarrow> campaign_data option \<Rightarrow> db
     \<Rightarrow> (op_error + conversation) \<times> db" where
  "conversation_findOrCreate ctx call_get now_created now_updated call_insert
       customerId customerPhone brandPhone campaignData d =
     (case conversation_getByPhones ctx call_get customerPhone brandPhone d of
        Inl e \<Rightarrow> (Inl e, d)
      | Inr existing \<Rightarrow>
          (case (case existing of
                   Some c \<Rightarrow> if conv_status c = StatusActive then Some c else None
                 | None \<Rightarrow> None) of
             Some c \<Rightarrow> (Inr c, d)
           | None \<Rightarrow>
               conversation_create ctx now_created now_updated call_insert
                 \<lparr>cc_customer_id = customerId,
                  cc_customer_phone = customerPhone,
                  cc_brand_phone = brandPhone,
                  cc_campaign_id = (case campaignData of Some cd \<Rightarrow> cd_campaign_id cd | None \<Rightarrow> None),
                  cc_campaign_name =
                    (case campaignData of Some cd \<Rightarrow> cd_campaign_name cd | None \<Rightarrow> None),
                  cc_metadata = None,
                  cc_tags = None\<rparr> d))"

text \<open>
  The values addMessage writes over the conversation: \<^verbatim>\<open>last_message_at\<close>,
  \<^verbatim>\<open>updated_at\<close> and one of \<^verbatim>\<open>last_inbound_at\<close>, \<^verbatim>\<open>last_outbound_at\<close>.
\<close>

definition conversation_stats :: "message_direction \<Rightarrow> timestamp \<Rightarrow> conversation \<Rightarrow> conversation" where
  "conversation_stats direction now c =
     (let c = c\<lparr>conv_last_message_at := Some now, conv_updated_at := now\<rparr>
      in if direction = Inbound then c\<lparr>conv_last_inbound_at := Some now\<rparr>
         else c\<lparr>conv_last_outbound_at := Some now\<rparr>)"

definition conversation_addMessage ::
  "brand_context \<Rightarrow> timestamp \<Rightarrow> store_call \<Rightarrow> store_call \<Rightarrow> create_message \<Rightarrow> db
     \<Rightarrow> (op_error + message) \<times> db" where
  "conversation_addMessage ctx now call_insert call_update data d =
     (let messageData =
            \<lparr>msg_id = call_uuid call_insert,
             msg_conversation_id = cm_conversation_id data,
             msg_direction = cm_direction data,
             msg_content = cm_content data,
             msg_media_urls = cm_media_urls data,
             msg_status = None,
             msg_external_id = cm_external_id data,
             msg_metadata = cm_metadata data,
             msg_sent_at = now,
             msg_delivered_at = None,
             msg_created_at = now\<rparr>
      in case insert_message call_insert messageData d of
           (Inl messageError, d') \<Rightarrow>
             (Inl (Error (''Failed to create message: '' @ err_message messageError)), d')
         | (Inr message, d') \<Rightarrow>
             (case update_conversations call_update
                     (\<lambda>c. conv_id c = cm_conversation_id data \<and> conv_brand_id c = ctx_brand_id ctx)
                     (conversation_stats (cm_direction data) now) d' of
                (Some conversationError, d'') \<Rightarrow>
                  (Inl (Error (''Failed to update conversation stats: ''
                                 @ err_message conversationError)), d'')
              | (None, d'') \<Rightarrow> (Inr message, d'')))"

text \<open>
  \<^verbatim>\<open>.order("sent_at", { ascending: false }).limit(limit)\<close>, the limit defaulting to 50.
  Rows with equal \<^verbatim>\<open>sent_at\<close> stay in the order of their insertion (the sort is
  stable).
\<close>

definition conversation_getMessages ::
  "brand_context \<Rightarrow> store_call \<Rightarrow> uuid \<Rightarrow> nat option \<Rightarrow> db \<Rightarrow> op_error + message list" where
  "conversation_getMessages ctx call conversationId limit d =
     (case select_rows call
             (take (case limit of None \<Rightarrow> 50 | Some n \<Rightarrow> n)
                (sort_key (\<lambda>m. - int (msg_sent_at m))
                   (filter (\<lambda>m. msg_conversation_id m = conversationId) (messages_tbl d)))) of
        Inl error \<Rightarrow> Inl (Error (''Failed to get messages: '' @ err_message error))
      | Inr data \<Rightarrow> Inr data)"

subsection \<open>Conversation analytics\<close>

record conversation_analytics =
  an_total :: nat
  an_active :: nat
  an_optedOut :: nat
  an_byStatus :: "conversation_status \<rightharpoonup> nat"
  an_avgMessagesPerConversation :: js_number
  an_totalMessages :: int

text \<open>
  One step of the \<^verbatim>\<open>forEach\<close>: the accumulator is the analytics object and the local
  \<^verbatim>\<open>totalMessages\<close>.
\<close>

definition count_conversation ::
  "conversation \<Rightarrow> conversation_analytics \<times> int \<Rightarrow> conversation_analytics \<times> int" where
  "count_conversation conv acc =
     (case acc of (analytics, totalMessages) \<Rightarrow>
        (analytics\<lparr>an_byStatus := increment_key (conv_status conv) (an_byStatus analytics),
                   an_active :=
                     (if conv_status conv = StatusActive then an_active analytics + 1
                      else an_active analytics),
                   an_optedOut :=
                     (if conv_opted_out_at conv \<noteq> None then an_optedOut analytics + 1
                      else an_optedOut analytics)\<rparr>,
         totalMessages + conv_message_count conv))"

definition conversation_getAnalytics ::
  "brand_context \<Rightarrow> store_call \<Rightarrow> (timestamp \<times> timestamp) option \<Rightarrow> db
     \<Rightarrow> op_error + conversation_analytics" where
  "conversation_getAnalytics ctx call timeRange d =
     (let query = conversations ctx d;
          query = (case timeRange of
                     Some (range_start, range_end) \<Rightarrow>
                       filter (\<lambda>c. conv_created_at c \<le> range_end)
                         (filter (\<lambda>c. range_start \<le> conv_created_at c) query)
                   | None \<Rightarrow> query)
      in case select_rows call query of
           Inl error \<Rightarrow> Inl (Error (''Failed to get conversation analytics: '' @ err_message error))
         | Inr data \<Rightarrow>
             (let analytics = \<lparr>an_total = length data, an_active = 0, an_optedOut = 0,
                               an_byStatus = Map.empty,
                               an_avgMessagesPerConversation = Finite 0,
                               an_totalMessages = 0\<rparr>;
                  (analytics, totalMessages) = fold count_conversation data (analytics, 0)
              in Inr (analytics\<lparr>an_totalMessages := totalMessages,
                                an_avgMessagesPerConversation :=
                                  (if 0 < length data
                                   then js_divide (real_of_int totalMessages) (real (length data))
                                   else Finite 0)\<rparr>)))"

section \<open>Example data\<close>

text \<open>
  A small store used to run the operations on concrete inputs: two customers and two
  conversations of the brand gnymble, and no message yet.
\<close>

definition ctx_of :: "brand_id \<Rightarrow> brand_context" where
  "ctx_of b = \<lparr>ctx_brand_id = b, ctx_config = getBrandConfig b,
              ctx_user_id = None, ctx_is_admin = None\<rparr>"

text \<open>
  A library constructor to run construction with: like the library's, it throws on a URL
  that does not start with \<^verbatim>\<open>http://\<close> or \<^verbatim>\<open>https://\<close>, and otherwise returns the
  handle. Two handles that differ.
\<close>

definition http_url :: "string \<Rightarrow> bool" where
  "http_url u \<longleftrightarrow> take 7 u = ''http://'' \<or> take 8 u = ''https://''"

definition example_createClient :: create_client where
  "example_createClient u k =
     (if http_url u
      then Inr \<lparr>sb_url = u, sb_anon_key = k, sb_persist_session = False\<rparr>
      else Inl (Error ''Invalid supabaseUrl: Must be a valid HTTP or HTTPS URL.''))"

definition handle_a :: supabase_client where
  "handle_a = \<lparr>sb_url = ''https://a.example'', sb_anon_key = ''key-a'',
               sb_persist_session = False\<rparr>"

definition handle_b :: supabase_client where
  "handle_b = \<lparr>sb_url = ''https://b.example'', sb_anon_key = ''key-b'',
               sb_persist_session = False\<rparr>"

definition no_env :: process_env where
  "no_env = \<lparr>NEXT_PUBLIC_SUPABASE_URL = None, NEXT_PUBLIC_SUPABASE_ANON_KEY = None\<rparr>"

definition ok_call :: "uuid \<Rightarrow> timestamp \<Rightarrow> store_call" where
  "ok_call u t = \<lparr>call_fault = None, call_now = t, call_uuid = u\<rparr>"

definition failing_call :: "pg_error \<Rightarrow> store_call" where
  "failing_call e = \<lparr>call_fault = Some e, call_now = 0, call_uuid = []\<rparr>"

definition alice :: customer where
  "alice =
     \<lparr>cust_id = ''c1'', cust_brand_id = Gnymble, cust_email = ''a@b.com'',
      cust_phone = Some ''+15551234567'', cust_first_name = Some ''Alice'',
      cust_last_name = None, cust_stage = StageTrial, cust_source = Website,
      cust_is_active = True, cust_marketing_qualified_at = None,
      cust_trial_started_at = Some 500, cust_subscribed_at = None, cust_churned_at = None,
      cust_metadata = None, cust_tags = None, cust_created_at = 100, cust_updated_at = 500,
      cust_created_by = None\<rparr>"

definition zoe :: customer where
  "zoe =
     \<lparr>cust_id = ''c2'', cust_brand_id = Gnymble, cust_email = ''z@b.com'',
      cust_phone = None, cust_first_name = None,
      cust_last_name = None, cust_stage = StageActive, cust_source = Referral,
      cust_is_active = True, cust_marketing_qualified_at = None,
      cust_trial_started_at = None, cust_subscribed_at = Some 300, cust_churned_at = None,
      cust_metadata = None, cust_tags = Some [''z''], cust_created_at = 200,
      cust_updated_at = 300, cust_created_by = None\<rparr>"

definition thread1 :: conversation where
  "thread1 =
     \<lparr>conv_id = ''v1'', conv_brand_id = Gnymble, conv_customer_id = ''c1'',
      conv_customer_phone = ''+15551234567'', conv_brand_phone = ''+15557654321'',
      conv_status = StatusActive, conv_campaign_id = None, conv_campaign_name = None,
      conv_message_count = 0, conv_last_message_at = None, conv_last_inbound_at = None,
      conv_last_outbound_at = None, conv_opted_out_at = None, conv_opt_out_reason = None,
      conv_metadata = None, conv_tags = None, conv_created_at = 600, conv_updated_at = 600\<rparr>"

definition thread2 :: conversation where
  "thread2 =
     \<lparr>conv_id = ''v2'', conv_brand_id = Gnymble, conv_customer_id = ''c2'',
      conv_customer_phone = ''+15550000002'', conv_brand_phone = ''+15557654321'',
      conv_status = StatusPaused, conv_campaign_id = None, conv_campaign_name = None,
      conv_message_count = 0, conv_last_message_at = None, conv_last_inbound_at = None,
      conv_last_outbound_at = None, conv_opted_out_at = None, conv_opt_out_reason = None,
      conv_metadata = None, conv_tags = None, conv_created_at = 700, conv_updated_at = 800\<rparr>"

definition example_db :: db where
  "example_db = \<lparr>customers_tbl = [alice, zoe], conversations_tbl = [thread1, thread2],
                 messages_tbl = []\<rparr>"

definition hi :: "message_direction \<Rightarrow> create_message" where
  "hi direction =
     \<lparr>cm_conversation_id = ''v1'', cm_direction = direction, cm_content = ''hi'',
      cm_media_urls = None, cm_external_id = None, cm_metadata = None\<rparr>"

definition hi_row :: "message_direction \<Rightarrow> message" where
  "hi_row direction =
     \<lparr>msg_id = ''m1'', msg_conversation_id = ''v1'', msg_direction = direction,
      msg_content = ''hi'', msg_media_urls = None, msg_status = None,
      msg_external_id = None, msg_metadata = None, msg_sent_at = 1000,
      msg_delivered_at = None, msg_created_at = 1000\<rparr>"

text \<open>The example store after an inbound message of gnymble's client to conversation v1.\<close>

definition example_db_inbound :: db where
  "example_db_inbound =
     \<lparr>customers_tbl = [alice, zoe],
      conversations_tbl =
        [thread1\<lparr>conv_last_message_at := Some 1000, conv_last_inbound_at := Some 1000,
                 conv_updated_at := 1002\<rparr>, thread2],
      messages_tbl = [hi_row Inbound]\<rparr>"

section \<open>What a store request leaves behind\<close>

lemma conversation_stats_keeps [simp]:
  "conv_id (conversation_stats direction now c) = conv_id c"
  "conv_brand_id (conversation_stats direction now c) = conv_brand_id c"
  "conv_customer_phone (conversation_stats direction now c) = conv_customer_phone c"
  "conv_brand_phone (conversation_stats direction now c) = conv_brand_phone c"
  "conv_message_count (conversation_stats direction now c) = conv_message_count c"
  by (simp_all add: conversation_stats_def Let_def)

lemma insert_message_cases:
  "insert_message call row d = (r, d') \<Longrightarrow>
     (\<exists>e. r = Inl e \<and> d' = d) \<or>
     (r = Inr row \<and> d' = d\<lparr>messages_tbl := messages_tbl d @ [row]\<rparr> \<and> call_fault call = None
        \<and> msg_id row \<notin> set (map msg_id (messages_tbl d))
        \<and> msg_conversation_id row \<in> set (map conv_id (conversations_tbl d)))"
  by (auto simp: insert_message_def split: option.splits if_splits)

lemma update_conversations_cases:
  "update_conversations call P upd d = (r, d') \<Longrightarrow>
     (\<exists>e. r = Some e \<and> d' = d) \<or>
     (r = None \<and> call_fault call = None \<and>
      d' = d\<lparr>conversations_tbl :=
               map (\<lambda>c. if P c then (upd c)\<lparr>conv_updated_at := call_now call\<rparr> else c)
                 (conversations_tbl d)\<rparr>)"
  by (auto simp: update_conversations_def Let_def split: option.splits if_splits)

text \<open>
  The two outcomes of addMessage: it throws and no conversation has changed (the message
  may have been written), or it returns the inserted row and the conversations are the
  old ones with the statistics written over those the brand-filtered update selects.
\<close>

lemma addMessage_cases:
  assumes "conversation_addMessage ctx now call_insert call_update data d = (r, d')"
  shows "(\<exists>e. r = Inl e \<and> conversations_tbl d' = conversations_tbl d) \<or>
         (\<exists>m. r = Inr m \<and> call_fault call_insert = None \<and> call_fault call_update = None \<and>
            msg_id m = call_uuid call_insert \<and>
            msg_conversation_id m = cm_conversation_id data \<and>
            msg_direction m = cm_direction data \<and>
            msg_content m = cm_content data \<and>
            cm_conversation_id data \<in> set (map conv_id (conversations_tbl d)) \<and>
            messages_tbl d' = messages_tbl d @ [m] \<and>
            customers_tbl d' = customers_tbl d \<and>
            conversations_tbl d' =
              map (\<lambda>c. if conv_id c = cm_conversation_id data \<and> conv_brand_id c = ctx_brand_id ctx
                       then (conversation_stats (cm_direction data) now c)
                              \<lparr>conv_updated_at := call_now call_update\<rparr>
                       else c) (conversations_tbl d))"
  using assms
  unfolding conversation_addMessage_def Let_def
  by (auto split: prod.splits sum.splits option.splits
           dest!: insert_message_cases update_conversations_cases)

lemma distinct_map_same_key:
  "distinct (map f xs) \<Longrightarrow> x \<in> set xs \<Longrightarrow> y \<in> set xs \<Longrightarrow> f x = f y \<Longrightarrow> x = y"
  by (auto simp: distinct_map dest: inj_onD)

lemma update_conversations_no_match:
  assumes "call_fault call = None" "conversations_constraints (conversations_tbl d)"
    "\<forall>c \<in> set (conversations_tbl d). \<not> P c"
  shows "update_conversations call P upd d = (None, d)"
proof -
  have "map (\<lambda>c. if P c then (upd c)\<lparr>conv_updated_at := call_now call\<rparr> else c)
          (conversations_tbl d) = conversations_tbl d"
    using assms(3) by (simp add: map_idI)
  then show ?thesis
    using assms(1,2) by (simp add: update_conversations_def Let_def)
qed

lemma filter_key_at_most_one:
  "distinct (map f xs) \<Longrightarrow> length (filter (\<lambda>x. f x = k) xs) \<le> 1"
proof (induction xs)
  case Nil
  then show ?case by simp
next
  case (Cons a xs)
  show ?case
  proof (cases "f a = k")
    case True
    with Cons.prems have "k \<notin> f ` set xs" by auto
    then have "filter (\<lambda>x. f x = k) xs = []"
      by (auto simp: filter_empty_conv)
    with True show ?thesis by simp
  next
    case False
    with Cons show ?thesis by simp
  qed
qed

lemma filter_sub_at_most_one:
  assumes "distinct (map f xs)" and "\<And>x. P x \<Longrightarrow> f x = k"
  shows "length (filter P xs) \<le> 1"
proof -
  have "filter P xs = filter P (filter (\<lambda>x. f x = k) xs)"
    using assms(2) by (auto simp: filter_filter intro: filter_cong)
  then have "length (filter P xs) \<le> length (filter (\<lambda>x. f x = k) xs)"
    by (metis length_filter_le)
  with filter_key_at_most_one [OF assms(1)] show ?thesis
    by (meson le_trans)
qed

lemma select_single_no_rows_iff:
  "call_fault call = None \<Longrightarrow> length rows \<le> 1 \<Longrightarrow>
     (\<exists>e. select_single call rows = Inl e \<and> err_code e = ''PGRST116'') = (rows = [])"
  by (cases rows; cases "tl rows") (auto simp: select_single_def no_rows_def)

lemma customer_getById_rows:
  assumes "constraints_hold d"
  shows "length (filter (\<lambda>c. cust_id c = i) (customers ctx d)) \<le> 1"
proof -
  have "distinct (map cust_id (customers_tbl d))"
    using assms by (simp add: constraints_hold_def customers_constraints_def)
  from filter_sub_at_most_one [OF this, of "\<lambda>c. cust_brand_id c = ctx_brand_id ctx \<and> cust_id c = i" i]
  show ?thesis by (simp add: customers_def)
qed

lemma customer_getByEmail_rows:
  assumes "constraints_hold d"
  shows "length (filter (\<lambda>c. cust_email c = email) (customers ctx d)) \<le> 1"
proof -
  have "distinct (map (\<lambda>c. (cust_brand_id c, cust_email c)) (customers_tbl d))"
    using assms by (simp add: constraints_hold_def customers_constraints_def)
  from filter_sub_at_most_one [OF this,
      of "\<lambda>c. cust_brand_id c = ctx_brand_id ctx \<and> cust_email c = email" "(ctx_brand_id ctx, email)"]
  show ?thesis by (simp add: customers_def)
qed

lemma customer_getByPhone_rows:
  assumes "constraints_hold d"
  shows "length (filter (\<lambda>c. cust_phone c = Some phone) (customers ctx d)) \<le> 1"
proof -
  have "distinct (map (\<lambda>c. (cust_brand_id c, cust_phone c))
                    (filter (\<lambda>c. cust_phone c \<noteq> None) (customers_tbl d)))"
    using assms by (simp add: constraints_hold_def customers_constraints_def)
  from filter_sub_at_most_one [OF this,
      of "\<lambda>c. cust_brand_id c = ctx_brand_id ctx \<and> cust_phone c = Some phone"
         "(ctx_brand_id ctx, Some phone)"]
  have "length (filter (\<lambda>c. cust_brand_id c = ctx_brand_id ctx \<and> cust_phone c = Some phone)
                  (filter (\<lambda>c. cust_phone c \<noteq> None) (customers_tbl d))) \<le> 1"
    by simp
  moreover have "filter (\<lambda>c. cust_phone c = Some phone) (customers ctx d)
      = filter (\<lambda>c. cust_brand_id c = ctx_brand_id ctx \<and> cust_phone c = Some phone)
          (filter (\<lambda>c. cust_phone c \<noteq> None) (customers_tbl d))"
    by (auto simp: customers_def intro: filter_cong)
  ultimately show ?thesis by simp
qed

lemma conversation_getById_rows:
  assumes "constraints_hold d"
  shows "length (filter (\<lambda>c. conv_id c = i) (conversations ctx d)) \<le> 1"
proof -
  have "distinct (map conv_id (conversations_tbl d))"
    using assms by (simp add: constraints_hold_def conversations_constraints_def)
  from filter_sub_at_most_one [OF this, of "\<lambda>c. conv_brand_id c = ctx_brand_id ctx \<and> conv_id c = i" i]
  show ?thesis by (simp add: conversations_def)
qed

lemma conversation_getByPhones_rows:
  assumes "conversations_constraints (conversations_tbl d)"
  shows "length (filter (\<lambda>c. conv_status c = StatusActive)
                (filter (\<lambda>c. conv_brand_phone c = brandPhone)
                   (filter (\<lambda>c. conv_customer_phone c = customerPhone) (conversations ctx d)))) \<le> 1"
proof -
  have "distinct (map (\<lambda>c. (conv_brand_id c, conv_customer_phone c, conv_brand_phone c))
                    (conversations_tbl d))"
    using assms by (simp add: conversations_constraints_def)
  from filter_sub_at_most_one [OF this,
      of "\<lambda>c. conv_brand_id c = ctx_brand_id ctx \<and> conv_customer_phone c = customerPhone
               \<and> conv_brand_phone c = brandPhone \<and> conv_status c = StatusActive"
         "(ctx_brand_id ctx, customerPhone, brandPhone)"]
  show ?thesis by (simp add: conversations_def conj_commute conj_left_commute)
qed

lemma single_lookup_null_iff:
  "((case resp of
       Inl error \<Rightarrow>
         if err_code error = ''PGRST116'' then Inr None
         else Inl (Error (p @ err_message error))
     | Inr data \<Rightarrow> Inr (Some data)) = Inr None)
   = (\<exists>e. resp = Inl e \<and> err_code e = ''PGRST116'')"
  by (auto split: sum.splits)

lemma set_customer_keys [simp]:
  "cust_id (set_customer data t c) = cust_id c"
  "cust_brand_id (set_customer data t c) = cust_brand_id c"
  by (simp_all add: set_customer_def)

lemma set_customer_email_phone:
  "upd_email data = None \<Longrightarrow> cust_email (set_customer data t c) = cust_email c"
  "upd_phone data = None \<Longrightarrow> cust_phone (set_customer data t c) = cust_phone c"
  by (simp_all add: set_customer_def)

lemma at_most_one_member: "length xs \<le> 1 \<Longrightarrow> x \<in> set xs \<Longrightarrow> xs = [x]"
  by (cases xs; cases "tl xs") auto

lemma customers_constraints_map:
  assumes "customers_constraints tbl"
    and "\<And>x. cust_id (g x) = cust_id x" and "\<And>x. cust_brand_id (g x) = cust_brand_id x"
    and "\<And>x. cust_email (g x) = cust_email x" and "\<And>x. cust_phone (g x) = cust_phone x"
  shows "customers_constraints (map g tbl)"
proof -
  have "filter (\<lambda>c. cust_phone c \<noteq> None) (map g tbl)
          = map g (filter (\<lambda>c. cust_phone c \<noteq> None) tbl)"
    by (simp add: filter_map comp_def assms)
  then show ?thesis
    using assms(1) by (simp add: customers_constraints_def comp_def assms(2-5))
qed

lemma update_customers_single_cases:
  "update_customers_single call P upd d = (r, d') \<Longrightarrow>
     (\<exists>e. r = Inl e \<and> d' = d) \<or>
     (\<exists>c. call_fault call = None \<and> filter P (customers_tbl d) = [c] \<and>
          r = Inr ((upd c)\<lparr>cust_updated_at := call_now call\<rparr>) \<and>
          d' = d\<lparr>customers_tbl :=
                   map (\<lambda>c. if P c then (upd c)\<lparr>cust_updated_at := call_now call\<rparr> else c)
                     (customers_tbl d)\<rparr>)"
  by (auto simp: update_customers_single_def Let_def split: option.splits if_splits list.splits)

lemma customer_update_cases:
  "customer_update ctx now call i data d = (r, d') \<Longrightarrow>
     (\<exists>e. r = Inl e \<and> d' = d) \<or>
     (\<exists>c. call_fault call = None \<and>
          filter (\<lambda>c. cust_id c = i \<and> cust_brand_id c = ctx_brand_id ctx) (customers_tbl d) = [c] \<and>
          r = Inr ((set_customer data now c)\<lparr>cust_updated_at := call_now call\<rparr>) \<and>
          d' = d\<lparr>customers_tbl :=
                   map (\<lambda>c. if cust_id c = i \<and> cust_brand_id c = ctx_brand_id ctx
                            then (set_customer data now c)\<lparr>cust_updated_at := call_now call\<rparr>
                            else c)
                     (customers_tbl d)\<rparr>)"
  unfolding customer_update_def
  by (auto split: prod.splits sum.splits dest!: update_customers_single_cases)

lemma customer_update_ok:
  assumes "call_fault call = None" and "customers_constraints (customers_tbl d)"
    and "c \<in> set (customers_tbl d)" and "cust_id c = i" and "cust_brand_id c = ctx_brand_id ctx"
    and "upd_email data = None" and "upd_phone data = None"
  shows "customer_update ctx now call i data d
           = (Inr ((set_customer data now c)\<lparr>cust_updated_at := call_now call\<rparr>),
              d\<lparr>customers_tbl :=
                   map (\<lambda>c. if cust_id c = i \<and> cust_brand_id c = ctx_brand_id ctx
                            then (set_customer data now c)\<lparr>cust_updated_at := call_now call\<rparr>
                            else c)
                     (customers_tbl d)\<rparr>)"
proof -
  let ?P = "\<lambda>c. cust_id c = i \<and> cust_brand_id c = ctx_brand_id ctx"
  let ?g = "\<lambda>c. if ?P c then (set_customer data now c)\<lparr>cust_updated_at := call_now call\<rparr> else c"
  have "distinct (map cust_id (customers_tbl d))"
    using assms(2) by (simp add: customers_constraints_def)
  from filter_sub_at_most_one [OF this, of ?P i]
  have "length (filter ?P (customers_tbl d)) \<le> 1" by simp
  moreover have "c \<in> set (filter ?P (customers_tbl d))"
    using assms(3-5) by simp
  ultimately have one: "filter ?P (customers_tbl d) = [c]"
    by (rule at_most_one_member)
  have "customers_constraints (map ?g (customers_tbl d))"
    using assms(2) by (rule customers_constraints_map)
      (simp_all add: set_customer_email_phone assms(6,7))
  then show ?thesis
    using assms(1) one by (simp add: customer_update_def update_customers_single_def Let_def)
qed


lemma fold_set_insert_set: "set (fold set_insert xs acc) = set acc \<union> set xs"
  by (induction xs arbitrary: acc) (auto simp: set_insert_def)

lemma fold_set_insert_distinct: "distinct acc \<Longrightarrow> distinct (fold set_insert xs acc)"
  by (induction xs arbitrary: acc) (auto simp: set_insert_def)

lemma new_Set_set [simp]: "set (new_Set xs) = set xs"
  by (simp add: new_Set_def fold_set_insert_set)

lemma new_Set_distinct [simp]: "distinct (new_Set xs)"
  by (simp add: new_Set_def fold_set_insert_distinct)

lemma customer_getById_found:
  assumes "customer_getById ctx call i d = Inr (Some c)"
  shows "filter (\<lambda>c. cust_id c = i \<and> cust_brand_id c = ctx_brand_id ctx) (customers_tbl d) = [c]"
proof -
  have eq: "filter (\<lambda>c. cust_id c = i) (customers ctx d)
          = filter (\<lambda>c. cust_id c = i \<and> cust_brand_id c = ctx_brand_id ctx) (customers_tbl d)"
    by (simp add: customers_def conj_commute)
  from assms have "select_single call (filter (\<lambda>c. cust_id c = i) (customers ctx d)) = Inr c"
    by (simp add: customer_getById_def split: sum.splits if_splits)
  then have "filter (\<lambda>c. cust_id c = i) (customers ctx d) = [c]"
    by (simp add: select_single_def split: option.splits list.splits)
  with eq show ?thesis by simp
qed

lemma customer_update_row:
  assumes "customer_update ctx now call i data d = (Inr c', d')"
  shows "\<exists>c. filter (\<lambda>c. cust_id c = i \<and> cust_brand_id c = ctx_brand_id ctx) (customers_tbl d) = [c]
             \<and> c' = (set_customer data now c)\<lparr>cust_updated_at := call_now call\<rparr>
             \<and> filter (\<lambda>c. cust_id c = i \<and> cust_brand_id c = ctx_brand_id ctx) (customers_tbl d')
                 = [c']"
proof -
  let ?P = "\<lambda>c. cust_id c = i \<and> cust_brand_id c = ctx_brand_id ctx"
  let ?g = "\<lambda>c. if ?P c then (set_customer data now c)\<lparr>cust_updated_at := call_now call\<rparr> else c"
  from customer_update_cases [OF assms]
  obtain c where c: "filter ?P (customers_tbl d) = [c]"
    and c': "c' = (set_customer data now c)\<lparr>cust_updated_at := call_now call\<rparr>"
    and d': "d' = d\<lparr>customers_tbl := map ?g (customers_tbl d)\<rparr>"
    by blast
  have "c \<in> set (filter ?P (customers_tbl d))"
    unfolding c by simp
  then have pc: "?P c"
    by simp
  have pg: "?P (?g x) = ?P x" for x
    by simp
  have "filter ?P (map ?g (customers_tbl d)) = map ?g (filter (\<lambda>x. ?P (?g x)) (customers_tbl d))"
    by (simp only: filter_map comp_def)
  also have "\<dots> = map ?g (filter ?P (customers_tbl d))"
    by (simp only: pg)
  also have "\<dots> = [?g c]"
    unfolding c by simp
  also have "?g c = c'"
    using pc unfolding c' by simp
  finally have "filter ?P (customers_tbl d') = [c']"
    unfolding d' by simp
  with c c' show ?thesis
    by blast
qed

lemma addTags_row:
  assumes "customer_addTags ctx call_get now call_update i tags d = (Inr c', d')"
  shows "\<exists>c. filter (\<lambda>c. cust_id c = i \<and> cust_brand_id c = ctx_brand_id ctx) (customers_tbl d) = [c]
             \<and> cust_tags c'
                 = Some (new_Set ((case cust_tags c of Some ts \<Rightarrow> ts | None \<Rightarrow> []) @ tags))
             \<and> filter (\<lambda>c. cust_id c = i \<and> cust_brand_id c = ctx_brand_id ctx) (customers_tbl d')
                 = [c']"
proof -
  from assms obtain customer where get: "customer_getById ctx call_get i d = Inr (Some customer)"
    and upd: "customer_update ctx now call_update i
                (no_update\<lparr>upd_tags :=
                   Some (new_Set ((case cust_tags customer of Some ts \<Rightarrow> ts | None \<Rightarrow> []) @ tags))\<rparr>) d
              = (Inr c', d')"
    by (auto simp: customer_addTags_def Let_def split: sum.splits option.splits)
  from customer_getById_found [OF get]
  have one: "filter (\<lambda>c. cust_id c = i \<and> cust_brand_id c = ctx_brand_id ctx) (customers_tbl d)
               = [customer]" .
  from customer_update_row [OF upd] one
  have c': "c' = (set_customer (no_update\<lparr>upd_tags :=
                   Some (new_Set ((case cust_tags customer of Some ts \<Rightarrow> ts | None \<Rightarrow> []) @ tags))\<rparr>)
                   now customer)\<lparr>cust_updated_at := call_now call_update\<rparr>"
    and after: "filter (\<lambda>c. cust_id c = i \<and> cust_brand_id c = ctx_brand_id ctx) (customers_tbl d')
                 = [c']"
    by auto
  have "cust_tags c'
          = Some (new_Set ((case cust_tags customer of Some ts \<Rightarrow> ts | None \<Rightarrow> []) @ tags))"
    unfolding c' by (simp add: set_customer_def no_update_def)
  with one after show ?thesis
    by blast
qed


lemma insert_conversation_cases:
  "insert_conversation call row d = (r, d') \<Longrightarrow>
     (\<exists>e. r = Inl e \<and> d' = d) \<or>
     (r = Inr row \<and> d' = d\<lparr>conversations_tbl := conversations_tbl d @ [row]\<rparr>
        \<and> conv_id row \<notin> set (map conv_id (conversations_tbl d)))"
  by (auto simp: insert_conversation_def split: option.splits if_splits)

lemma conversation_create_cases:
  "conversation_create ctx now_created now_updated call data d = (r, d') \<Longrightarrow>
     (\<exists>e. r = Inl e \<and> d' = d) \<or>
     (\<exists>row. r = Inr row \<and> conv_id row \<notin> set (map conv_id (conversations_tbl d)))"
  unfolding conversation_create_def Let_def
  by (auto split: prod.splits sum.splits dest!: insert_conversation_cases)

lemma conversation_create_collides:
  assumes "c \<in> set (conversations_tbl d)" and "conv_brand_id c = ctx_brand_id ctx"
    and "conv_customer_phone c = cc_customer_phone data"
    and "conv_brand_phone c = cc_brand_phone data"
  shows "(\<exists>msg. conversation_create ctx now_created now_updated call data d = (Inl (Error msg), d))
    \<and> (call_fault call = None \<and> call_uuid call \<notin> set (map conv_id (conversations_tbl d))
         \<longrightarrow> conversation_create ctx now_created now_updated call data d
               = (Inl (Error (''Failed to create conversation: ''
                    @ err_message (unique_violation ''conversations_brand_phones_unique''))), d))"
proof -
  have "(ctx_brand_id ctx, cc_customer_phone data, cc_brand_phone data)
          = (\<lambda>c. (conv_brand_id c, conv_customer_phone c, conv_brand_phone c)) c"
    using assms(2-4) by simp
  with assms(1)
  have "(ctx_brand_id ctx, cc_customer_phone data, cc_brand_phone data)
          \<in> (\<lambda>c. (conv_brand_id c, conv_customer_phone c, conv_brand_phone c))
               ` set (conversations_tbl d)"
    by (rule image_eqI [rotated])
  then show ?thesis
    by (simp add: conversation_create_def insert_conversation_def Let_def split: option.splits)
qed

lemma conversation_getByPhones_found:
  assumes "conversation_getByPhones ctx call customerPhone brandPhone d = Inr (Some x)"
  shows "x \<in> set (conversations_tbl d) \<and> conv_brand_id x = ctx_brand_id ctx
           \<and> conv_customer_phone x = customerPhone \<and> conv_brand_phone x = brandPhone
           \<and> conv_status x = StatusActive"
proof -
  let ?rows = "filter (\<lambda>c. conv_status c = StatusActive)
                (filter (\<lambda>c. conv_brand_phone c = brandPhone)
                   (filter (\<lambda>c. conv_customer_phone c = customerPhone) (conversations ctx d)))"
  from assms have "select_single call ?rows = Inr x"
    by (simp add: conversation_getByPhones_def split: sum.splits if_splits)
  then have "?rows = [x]"
    by (simp add: select_single_def split: option.splits list.splits)
  then have "x \<in> set ?rows"
    by simp
  then show ?thesis
    by (simp add: conversations_def)
qed

lemma conversation_getByPhones_inactive:
  assumes "conversations_constraints (conversations_tbl d)"
    and "c \<in> set (conversations_tbl d)" and "conv_brand_id c = ctx_brand_id ctx"
    and "conv_customer_phone c = customerPhone" and "conv_brand_phone c = brandPhone"
    and "conv_status c \<noteq> StatusActive"
  shows "\<forall>x. conversation_getByPhones ctx call customerPhone brandPhone d \<noteq> Inr (Some x)"
proof (intro allI notI)
  fix x
  assume "conversation_getByPhones ctx call customerPhone brandPhone d = Inr (Some x)"
  from conversation_getByPhones_found [OF this]
  have x: "x \<in> set (conversations_tbl d)"
    and key: "(\<lambda>c. (conv_brand_id c, conv_customer_phone c, conv_brand_phone c)) x
              = (\<lambda>c. (conv_brand_id c, conv_customer_phone c, conv_brand_phone c)) c"
    and active: "conv_status x = StatusActive"
    using assms(3-5) by simp_all
  have "distinct (map (\<lambda>c. (conv_brand_id c, conv_customer_phone c, conv_brand_phone c))
                    (conversations_tbl d))"
    using assms(1) by (simp add: conversations_constraints_def)
  from this x assms(2) key have "x = c"
    by (rule distinct_map_same_key)
  with active assms(6) show False
    by simp
qed

lemma findOrCreate_inactive:
  assumes "conversations_constraints (conversations_tbl d)"
    and "c \<in> set (conversations_tbl d)" and "conv_brand_id c = ctx_brand_id ctx"
    and "conv_customer_phone c = customerPhone" and "conv_brand_phone c = brandPhone"
    and "conv_status c \<noteq> StatusActive"
  shows "(\<exists>msg. conversation_findOrCreate ctx call_get now_created now_updated call_insert
                  customerId customerPhone brandPhone campaignData d = (Inl (Error msg), d))
    \<and> (call_fault call_get = None \<and> call_fault call_insert = None
          \<and> call_uuid call_insert \<notin> set (map conv_id (conversations_tbl d))
         \<longrightarrow> conversation_findOrCreate ctx call_get now_created now_updated call_insert
                  customerId customerPhone brandPhone campaignData d
               = (Inl (Error (''Failed to create conversation: ''
                    @ err_message (unique_violation ''conversations_brand_phones_unique''))), d))"
proof -
  let ?data = "\<lparr>cc_customer_id = customerId,
                  cc_customer_phone = customerPhone,
                  cc_brand_phone = brandPhone,
                  cc_campaign_id = (case campaignData of Some cd \<Rightarrow> cd_campaign_id cd | None \<Rightarrow> None),
                  cc_campaign_name =
                    (case campaignData of Some cd \<Rightarrow> cd_campaign_name cd | None \<Rightarrow> None),
                  cc_metadata = None,
                  cc_tags = None\<rparr>"
  note none = conversation_getByPhones_inactive [OF assms, of call_get]
  have coll: "(\<exists>msg. conversation_create ctx now_created now_updated call_insert ?data d
                      = (Inl (Error msg), d))
    \<and> (call_fault call_insert = None \<and> call_uuid call_insert \<notin> set (map conv_id (conversations_tbl d))
         \<longrightarrow> conversation_create ctx now_created now_updated call_insert ?data d
               = (Inl (Error (''Failed to create conversation: ''
                    @ err_message (unique_violation ''conversations_brand_phones_unique''))), d))"
    using assms(2-5) by (intro conversation_create_collides) simp_all
  consider (err) e where "conversation_getByPhones ctx call_get customerPhone brandPhone d = Inl e"
    | (null) "conversation_getByPhones ctx call_get customerPhone brandPhone d = Inr None"
    using none by (cases "conversation_getByPhones ctx call_get customerPhone brandPhone d")
      (auto simp: option.exhaust)
  then show ?thesis
  proof cases
    case err
    have "call_fault call_get \<noteq> None"
    proof
      assume ok: "call_fault call_get = None"
      from err show False
        by (auto simp: conversation_getByPhones_def select_single_def ok no_rows_def
              split: list.splits if_splits)
    qed
    moreover obtain msg where "e = Error msg"
      by (cases e)
    ultimately show ?thesis
      using err by (auto simp: conversation_findOrCreate_def)
  next
    case null
    then show ?thesis
      using coll by (simp add: conversation_findOrCreate_def)
  qed
qed

lemma findOrCreate_existing_only_active:
  assumes "conversation_findOrCreate ctx call_get now_created now_updated call_insert
             customerId customerPhone brandPhone campaignData d = (Inr c', d')"
    and "c' \<in> set (conversations_tbl d)"
  shows "conv_status c' = StatusActive \<and> conv_brand_id c' = ctx_brand_id ctx
           \<and> conv_customer_phone c' = customerPhone \<and> conv_brand_phone c' = brandPhone \<and> d' = d"
proof (cases "conversation_getByPhones ctx call_get customerPhone brandPhone d")
  case (Inl e)
  with assms(1) show ?thesis
    by (simp add: conversation_findOrCreate_def)
next
  case (Inr existing)
  show ?thesis
  proof (cases existing)
    case None
    with Inr assms(1) obtain data where
      "conversation_create ctx now_created now_updated call_insert data d = (Inr c', d')"
      by (simp add: conversation_findOrCreate_def)
    from conversation_create_cases [OF this]
    have "conv_id c' \<notin> set (map conv_id (conversations_tbl d))"
      by auto
    with assms(2) show ?thesis
      by simp
  next
    case (Some x)
    from conversation_getByPhones_found [OF Inr [unfolded Some]]
    have x: "x \<in> set (conversations_tbl d) \<and> conv_brand_id x = ctx_brand_id ctx
           \<and> conv_customer_phone x = customerPhone \<and> conv_brand_phone x = brandPhone
           \<and> conv_status x = StatusActive" .
    with Inr Some assms(1) have "c' = x \<and> d' = d"
      by (simp add: conversation_findOrCreate_def)
    with x show ?thesis
      by simp
  qed
qed

lemma js_divide_finite: "b \<noteq> 0 \<Longrightarrow> js_divide a b = Finite (a / b)"
  by (simp add: js_divide_def)

lemma count_customer_fields [simp]:
  "ca_total (count_customer r a) = ca_total a"
  "ca_byStage (count_customer r a) = increment_key (car_stage r) (ca_byStage a)"
  by (simp_all add: count_customer_def)

lemma fold_count_customer_byStage:
  "ca_byStage (fold count_customer data a) s
     = (if filter (\<lambda>r. car_stage r = s) data = [] then ca_byStage a s
        else Some (or_zero (ca_byStage a s) + length (filter (\<lambda>r. car_stage r = s) data)))"
proof (induction data arbitrary: a)
  case Nil
  then show ?case by simp
next
  case (Cons r data)
  show ?case
    by (simp add: Cons.IH increment_key_def or_zero_def)
qed

lemma fold_count_customer_count:
  assumes "ca_byStage a s = None"
  shows "or_zero (ca_byStage (fold count_customer data a) s)
           = length (filter (\<lambda>r. car_stage r = s) data)"
proof (cases "filter (\<lambda>r. car_stage r = s) data")
  case Nil
  then show ?thesis
    unfolding fold_count_customer_byStage using assms by (simp add: or_zero_def)
next
  case (Cons r rs)
  then show ?thesis
    unfolding fold_count_customer_byStage using assms by (simp add: or_zero_def)
qed

lemma customer_getAnalytics_rate:
  assumes "customer_getAnalytics ctx call d = Inr a"
  shows "ca_conversionRate a
           = (let leads = length (filter (\<lambda>c. cust_stage c = StageLead) (customers ctx d));
                  active = length (filter (\<lambda>c. cust_stage c = StageActive) (customers ctx d))
              in if 0 < leads then Finite (real active / real leads * 100) else Finite 0)"
proof -
  let ?data = "map customer_analytics_columns
                 (filter (\<lambda>c. cust_brand_id c = ctx_brand_id ctx) (customers_tbl d))"
  let ?init = "\<lparr>ca_total = length ?data, ca_byStage = Map.empty,
                  ca_bySource = Map.empty, ca_conversionRate = Finite 0,
                  ca_avgTimeToConversion = Finite 0\<rparr>"
  have cnt: "length (filter (\<lambda>r. car_stage r = s) ?data)
               = length (filter (\<lambda>c. cust_stage c = s) (customers ctx d))" for s
    by (simp add: filter_map comp_def customer_analytics_columns_def customers_def)
  have by_stage: "or_zero (ca_byStage (fold count_customer ?data ?init) s)
                    = length (filter (\<lambda>c. cust_stage c = s) (customers ctx d))" for s
  proof -
    have "or_zero (ca_byStage (fold count_customer ?data ?init) s)
            = length (filter (\<lambda>r. car_stage r = s) ?data)"
      by (rule fold_count_customer_count) simp
    then show ?thesis
      unfolding cnt .
  qed
  let ?counted = "fold count_customer ?data ?init"
  let ?rate = "if 0 < or_zero (ca_byStage ?counted StageLead)
               then js_times (js_divide (real (or_zero (ca_byStage ?counted StageActive)))
                                (real (or_zero (ca_byStage ?counted StageLead)))) 100
               else Finite 0"
  have ok: "call_fault call = None"
  proof (cases "call_fault call")
    case None
    then show ?thesis .
  next
    case (Some e)
    with assms show ?thesis
      by (simp add: customer_getAnalytics_def select_rows_def)
  qed
  have eq: "customer_getAnalytics ctx call d = Inr (?counted\<lparr>ca_conversionRate := ?rate\<rparr>)"
    by (simp add: customer_getAnalytics_def select_rows_def ok Let_def)
  from assms [unfolded eq] have "?counted\<lparr>ca_conversionRate := ?rate\<rparr> = a"
    by (rule Inr_inject)
  from this [symmetric] have "ca_conversionRate a
      = ca_conversionRate (?counted\<lparr>ca_conversionRate := ?rate\<rparr>)"
    by (rule arg_cong)
  also have "\<dots> = ?rate"
    by simp
  finally show ?thesis
    unfolding by_stage Let_def by (simp add: js_divide_finite js_times_def)
qed

lemma fold_count_conversation_total:
  "snd (fold count_conversation data acc) = snd acc + sum_list (map conv_message_count data)"
  by (induction data arbitrary: acc) (auto simp: count_conversation_def split: prod.splits)

lemma conversation_getAnalytics_avg:
  assumes "conversation_getAnalytics ctx call timeRange d = Inr b"
  shows "an_avgMessagesPerConversation b
           = (let rows = (case timeRange of
                     Some (range_start, range_end) \<Rightarrow>
                       filter (\<lambda>c. conv_created_at c \<le> range_end)
                         (filter (\<lambda>c. range_start \<le> conv_created_at c) (conversations ctx d))
                   | None \<Rightarrow> conversations ctx d)
              in if 0 < length rows
                 then Finite (real_of_int (sum_list (map conv_message_count rows))
                                / real (length rows))
                 else Finite 0)"
proof -
  let ?rows = "case timeRange of
                 Some (range_start, range_end) \<Rightarrow>
                   filter (\<lambda>c. conv_created_at c \<le> range_end)
                     (filter (\<lambda>c. range_start \<le> conv_created_at c) (conversations ctx d))
               | None \<Rightarrow> conversations ctx d"
  let ?init = "\<lparr>an_total = length ?rows, an_active = 0, an_optedOut = 0,
                  an_byStatus = Map.empty,
                  an_avgMessagesPerConversation = Finite 0,
                  an_totalMessages = 0\<rparr>"
  let ?folded = "fold count_conversation ?rows (?init, 0)"
  let ?avg = "if 0 < length ?rows
              then js_divide (real_of_int (snd ?folded)) (real (length ?rows))
              else Finite 0"
  have ok: "call_fault call = None"
  proof (cases "call_fault call")
    case None
    then show ?thesis .
  next
    case (Some e)
    with assms show ?thesis
      by (simp add: conversation_getAnalytics_def select_rows_def Let_def)
  qed
  have eq: "conversation_getAnalytics ctx call timeRange d
              = Inr ((fst ?folded)\<lparr>an_totalMessages := snd ?folded,
                                     an_avgMessagesPerConversation := ?avg\<rparr>)"
    by (simp add: conversation_getAnalytics_def select_rows_def ok Let_def split_beta)
  from assms [unfolded eq]
  have "(fst ?folded)\<lparr>an_totalMessages := snd ?folded,
                        an_avgMessagesPerConversation := ?avg\<rparr> = b"
    by (rule Inr_inject)
  from this [symmetric] have "an_avgMessagesPerConversation b
      = an_avgMessagesPerConversation
          ((fst ?folded)\<lparr>an_totalMessages := snd ?folded,
                           an_avgMessagesPerConversation := ?avg\<rparr>)"
    by (rule arg_cong)
  also have "\<dots> = ?avg"
    by simp
  finally show ?thesis
    unfolding fold_count_conversation_total Let_def by (simp add: js_divide_finite)
qed

lemma customer_getAnalytics_returns:
  "call_fault call = None \<Longrightarrow> \<exists>a. customer_getAnalytics ctx call d = Inr a"
  by (simp add: customer_getAnalytics_def select_rows_def Let_def)

lemma conversation_getAnalytics_returns:
  "call_fault call = None \<Longrightarrow> \<exists>b. conversation_getAnalytics ctx call timeRange d = Inr b"
  by (simp add: conversation_getAnalytics_def select_rows_def Let_def split_beta)

lemmas example_defs =
  ctx_of_def ok_call_def failing_call_def alice_def zoe_def thread1_def thread2_def
  example_db_def hi_def hi_row_def example_db_inbound_def

lemmas store_defs =
  select_single_def select_rows_def insert_conversation_def insert_message_def
  update_conversations_def update_customers_single_def customers_constraints_def
  conversations_constraints_def constraints_hold_def customers_def conversations_def
  no_rows_def unique_violation_def foreign_key_violation_def quoted_def

section \<open>The claims\<close>

subsection \<open>C7: construction of the connection\<close>

text \<open>
  C7, as the claim states it, fails in two places. With a URL and a key both present,
  construction still throws when the library's \<^verbatim>\<open>createClient\<close> rejects them, as it does
  for the URL \<^verbatim>\<open>not a url\<close>, and then no singleton is installed. And the constructor of
  \<^verbatim>\<open>BrandAwareSupabase\<close>, given a handle of its own, uses that handle and not the
  singleton that exists.
\<close>

theorem construction_counterexample:
  "truthy (Some ''not a url'') \<and> truthy (Some ''key'') \<and>
   createSupabaseClient example_createClient (Some ''not a url'') (Some ''key'') no_env None
     = (Inl (Error ''Invalid supabaseUrl: Must be a valid HTTP or HTTPS URL.''), None) \<and>
   BrandAwareSupabase example_createClient (ctx_of Gnymble) (Some handle_a) no_env (Some handle_b)
     = (Inr \<lparr>bas_client = handle_a, bas_brandContext = ctx_of Gnymble\<rparr>, Some handle_b) \<and>
   handle_a \<noteq> handle_b"
  by (simp add: createSupabaseClient_def BrandAwareSupabase_def truthy_def js_or_def Let_def
        example_createClient_def http_url_def no_env_def handle_a_def handle_b_def)

text \<open>
  C7, amended. \<^verbatim>\<open>createSupabaseClient\<close> returns the process-wide singleton when there is
  one, whatever its arguments and the environment. When there is none: if the endpoint
  URL is missing or empty in both the explicit argument and the environment, or the API
  key is, it throws the error \<^verbatim>\<open>Missing Supabase configuration\<close>; otherwise it passes the
  URL and the key (the argument if present, else the environment's) to the library's
  \<^verbatim>\<open>createClient\<close>, and it throws what that throws, installing nothing, or installs and
  returns the handle that returns. So construction throws exactly when the URL or the key
  is absent or \<^verbatim>\<open>createClient\<close> throws. The constructor of \<^verbatim>\<open>BrandAwareSupabase\<close>, given
  no handle, does the same with the environment alone; given a handle it uses that handle
  and leaves the singleton as it is.
\<close>

theorem construction_singleton_config_library:
  "createSupabaseClient lib url anonKey env (Some c) = (Inr c, Some c) \<and>
   ((\<not> truthy url \<and> \<not> truthy (NEXT_PUBLIC_SUPABASE_URL env))
      \<or> (\<not> truthy anonKey \<and> \<not> truthy (NEXT_PUBLIC_SUPABASE_ANON_KEY env))
    \<longrightarrow> createSupabaseClient lib url anonKey env None
          = (Inl (Error ''Missing Supabase configuration''), None)) \<and>
   ((truthy url \<or> truthy (NEXT_PUBLIC_SUPABASE_URL env))
      \<and> (truthy anonKey \<or> truthy (NEXT_PUBLIC_SUPABASE_ANON_KEY env))
    \<longrightarrow> (\<exists>u k. js_or url (NEXT_PUBLIC_SUPABASE_URL env) = Some u
              \<and> js_or anonKey (NEXT_PUBLIC_SUPABASE_ANON_KEY env) = Some k
              \<and> createSupabaseClient lib url anonKey env None
                  = (case lib u k of
                       Inl e \<Rightarrow> (Inl e, None)
                     | Inr cl \<Rightarrow> (Inr cl, Some cl)))) \<and>
   ((\<exists>e. fst (createSupabaseClient lib url anonKey env None) = Inl e)
      \<longleftrightarrow> (\<not> truthy url \<and> \<not> truthy (NEXT_PUBLIC_SUPABASE_URL env))
          \<or> (\<not> truthy anonKey \<and> \<not> truthy (NEXT_PUBLIC_SUPABASE_ANON_KEY env))
          \<or> (\<exists>u k e. js_or url (NEXT_PUBLIC_SUPABASE_URL env) = Some u
                \<and> js_or anonKey (NEXT_PUBLIC_SUPABASE_ANON_KEY env) = Some k
                \<and> lib u k = Inl e)) \<and>
   BrandAwareSupabase lib ctx (Some own) env s
     = (Inr \<lparr>bas_client = own, bas_brandContext = ctx\<rparr>, s) \<and>
   BrandAwareSupabase lib ctx None env (Some c)
     = (Inr \<lparr>bas_client = c, bas_brandContext = ctx\<rparr>, Some c) \<and>
   BrandAwareSupabase lib ctx None env None
     = (case createSupabaseClient lib None None env None of
          (Inl e, s') \<Rightarrow> (Inl e, s')
        | (Inr cl, s') \<Rightarrow> (Inr \<lparr>bas_client = cl, bas_brandContext = ctx\<rparr>, s'))"
proof -
  have a: "createSupabaseClient lib url anonKey env (Some c) = (Inr c, Some c)"
    by (simp add: createSupabaseClient_def)
  have b: "(\<not> truthy url \<and> \<not> truthy (NEXT_PUBLIC_SUPABASE_URL env))
      \<or> (\<not> truthy anonKey \<and> \<not> truthy (NEXT_PUBLIC_SUPABASE_ANON_KEY env))
    \<longrightarrow> createSupabaseClient lib url anonKey env None
          = (Inl (Error ''Missing Supabase configuration''), None)"
    by (auto simp: createSupabaseClient_def js_or_def Let_def)
  have c: "(truthy url \<or> truthy (NEXT_PUBLIC_SUPABASE_URL env))
      \<and> (truthy anonKey \<or> truthy (NEXT_PUBLIC_SUPABASE_ANON_KEY env))
    \<longrightarrow> (\<exists>u k. js_or url (NEXT_PUBLIC_SUPABASE_URL env) = Some u
              \<and> js_or anonKey (NEXT_PUBLIC_SUPABASE_ANON_KEY env) = Some k
              \<and> createSupabaseClient lib url anonKey env None
                  = (case lib u k of
                       Inl e \<Rightarrow> (Inl e, None)
                     | Inr cl \<Rightarrow> (Inr cl, Some cl)))"
    by (cases url; cases anonKey; cases "NEXT_PUBLIC_SUPABASE_URL env";
        cases "NEXT_PUBLIC_SUPABASE_ANON_KEY env")
       (auto simp: createSupabaseClient_def truthy_def js_or_def Let_def)
  have d: "(\<exists>e. fst (createSupabaseClient lib url anonKey env None) = Inl e)
      \<longleftrightarrow> (\<not> truthy url \<and> \<not> truthy (NEXT_PUBLIC_SUPABASE_URL env))
          \<or> (\<not> truthy anonKey \<and> \<not> truthy (NEXT_PUBLIC_SUPABASE_ANON_KEY env))
          \<or> (\<exists>u k e. js_or url (NEXT_PUBLIC_SUPABASE_URL env) = Some u
                \<and> js_or anonKey (NEXT_PUBLIC_SUPABASE_ANON_KEY env) = Some k
                \<and> lib u k = Inl e)"
    by (cases url; cases anonKey; cases "NEXT_PUBLIC_SUPABASE_URL env";
        cases "NEXT_PUBLIC_SUPABASE_ANON_KEY env")
       (auto simp: createSupabaseClient_def truthy_def js_or_def Let_def split: sum.splits)
  have e: "BrandAwareSupabase lib ctx (Some own) env s
     = (Inr \<lparr>bas_client = own, bas_brandContext = ctx\<rparr>, s)"
    by (simp add: BrandAwareSupabase_def)
  have f: "BrandAwareSupabase lib ctx None env (Some c)
     = (Inr \<lparr>bas_client = c, bas_brandContext = ctx\<rparr>, Some c)"
    by (simp add: BrandAwareSupabase_def getSupabaseClient_def)
  have g: "BrandAwareSupabase lib ctx None env None
     = (case createSupabaseClient lib None None env None of
          (Inl e, s') \<Rightarrow> (Inl e, s')
        | (Inr cl, s') \<Rightarrow> (Inr \<lparr>bas_client = cl, bas_brandContext = ctx\<rparr>, s'))"
    by (simp add: BrandAwareSupabase_def getSupabaseClient_def)
  show ?thesis
    by (intro conjI) (fact a b c d e f g)+
qed

text \<open>
  With the example constructor: a URL from the environment and a key from the argument
  give a handle that becomes the singleton; an empty URL counts as absent; an existing
  singleton is returned whatever the configuration; and the constructor with no handle
  and no configuration throws.
\<close>

theorem construction_singleton_config_library_witness:
  "createSupabaseClient example_createClient None (Some ''key'')
     \<lparr>NEXT_PUBLIC_SUPABASE_URL = Some ''https://db.example'',
      NEXT_PUBLIC_SUPABASE_ANON_KEY = None\<rparr> None
     = (Inr \<lparr>sb_url = ''https://db.example'', sb_anon_key = ''key'',
             sb_persist_session = False\<rparr>,
        Some \<lparr>sb_url = ''https://db.example'', sb_anon_key = ''key'',
              sb_persist_session = False\<rparr>) \<and>
   createSupabaseClient example_createClient None (Some ''key'')
     \<lparr>NEXT_PUBLIC_SUPABASE_URL = Some [], NEXT_PUBLIC_SUPABASE_ANON_KEY = None\<rparr> None
     = (Inl (Error ''Missing Supabase configuration''), None) \<and>
   createSupabaseClient example_createClient None None no_env (Some handle_b)
     = (Inr handle_b, Some handle_b) \<and>
   BrandAwareSupabase example_createClient (ctx_of Gnymble) None no_env None
     = (Inl (Error ''Missing Supabase configuration''), None)"
proof -
  let ?env1 = "\<lparr>NEXT_PUBLIC_SUPABASE_URL = Some ''https://db.example'',
                 NEXT_PUBLIC_SUPABASE_ANON_KEY = None\<rparr>"
  let ?env2 = "\<lparr>NEXT_PUBLIC_SUPABASE_URL = Some [], NEXT_PUBLIC_SUPABASE_ANON_KEY = None\<rparr>"
  note t1 = construction_singleton_config_library
              [of example_createClient None "Some ''key''" ?env1 handle_b "ctx_of Gnymble"
                  handle_a None]
  note t2 = construction_singleton_config_library
              [of example_createClient None "Some ''key''" ?env2 handle_b "ctx_of Gnymble"
                  handle_a None]
  note t3 = construction_singleton_config_library
              [of example_createClient None None no_env handle_b "ctx_of Gnymble" handle_a None]
  have present: "(truthy None \<or> truthy (NEXT_PUBLIC_SUPABASE_URL ?env1))
      \<and> (truthy (Some ''key'') \<or> truthy (NEXT_PUBLIC_SUPABASE_ANON_KEY ?env1))"
    by (simp add: truthy_def)
  from t1 [THEN conjunct2, THEN conjunct2, THEN conjunct1, rule_format, OF present]
  have w1: "createSupabaseClient example_createClient None (Some ''key'') ?env1 None
     = (Inr \<lparr>sb_url = ''https://db.example'', sb_anon_key = ''key'',
             sb_persist_session = False\<rparr>,
        Some \<lparr>sb_url = ''https://db.example'', sb_anon_key = ''key'',
              sb_persist_session = False\<rparr>)"
    by (auto simp: js_or_def truthy_def example_createClient_def http_url_def)
  have absent: "(\<not> truthy None \<and> \<not> truthy (NEXT_PUBLIC_SUPABASE_URL ?env2))
      \<or> (\<not> truthy (Some ''key'') \<and> \<not> truthy (NEXT_PUBLIC_SUPABASE_ANON_KEY ?env2))"
    by (simp add: truthy_def)
  from t2 [THEN conjunct2, THEN conjunct1, rule_format, OF absent]
  have w2: "createSupabaseClient example_createClient None (Some ''key'') ?env2 None
     = (Inl (Error ''Missing Supabase configuration''), None)" .
  from t3 [THEN conjunct1]
  have w3: "createSupabaseClient example_createClient None None no_env (Some handle_b)
     = (Inr handle_b, Some handle_b)" .
  have absent3: "(\<not> truthy None \<and> \<not> truthy (NEXT_PUBLIC_SUPABASE_URL no_env))
      \<or> (\<not> truthy None \<and> \<not> truthy (NEXT_PUBLIC_SUPABASE_ANON_KEY no_env))"
    by (simp add: truthy_def no_env_def)
  from t3 [THEN conjunct2, THEN conjunct1, rule_format, OF absent3]
  have missing: "createSupabaseClient example_createClient None None no_env None
     = (Inl (Error ''Missing Supabase configuration''), None)" .
  have w4: "BrandAwareSupabase example_createClient (ctx_of Gnymble) None no_env None
     = (Inl (Error ''Missing Supabase configuration''), None)"
    unfolding t3 [THEN conjunct2, THEN conjunct2, THEN conjunct2, THEN conjunct2,
                  THEN conjunct2, THEN conjunct2] missing
    by simp
  show ?thesis
    by (intro conjI) (fact w1 w2 w3 w4)+
qed

subsection \<open>C2: addMessage and message_count\<close>

text \<open>
  C2. Whatever addMessage is called with and however its two store requests end, every
  conversation has the same \<^verbatim>\<open>message_count\<close> after the call as before it: the
  conversations, row by row, keep their identifier and their count.
\<close>

theorem addMessage_message_count_unchanged:
  "map (\<lambda>c. (conv_id c, conv_message_count c))
       (conversations_tbl (snd (conversation_addMessage ctx now call_insert call_update data d)))
   = map (\<lambda>c. (conv_id c, conv_message_count c)) (conversations_tbl d)"
proof -
  obtain r d' where eq: "conversation_addMessage ctx now call_insert call_update data d = (r, d')"
    by (cases "conversation_addMessage ctx now call_insert call_update data d")
  from addMessage_cases [OF eq] show ?thesis
    unfolding eq by (auto simp: comp_def)
qed

text \<open>
  On the example store an outbound message to conversation v1 is inserted and stamps the
  conversation, and both counts are still 0.
\<close>

theorem addMessage_message_count_unchanged_witness:
  "fst (conversation_addMessage (ctx_of Gnymble) 1000 (ok_call ''m1'' 1001) (ok_call [] 1002)
          (hi Outbound) example_db) = Inr (hi_row Outbound) \<and>
   messages_tbl (snd (conversation_addMessage (ctx_of Gnymble) 1000 (ok_call ''m1'' 1001)
          (ok_call [] 1002) (hi Outbound) example_db)) = [hi_row Outbound] \<and>
   map conv_last_message_at
     (conversations_tbl (snd (conversation_addMessage (ctx_of Gnymble) 1000 (ok_call ''m1'' 1001)
          (ok_call [] 1002) (hi Outbound) example_db))) = [Some 1000, None] \<and>
   map (\<lambda>c. (conv_id c, conv_message_count c))
     (conversations_tbl (snd (conversation_addMessage (ctx_of Gnymble) 1000 (ok_call ''m1'' 1001)
          (ok_call [] 1002) (hi Outbound) example_db))) = [(''v1'', 0), (''v2'', 0)]"
  using addMessage_message_count_unchanged
          [of "ctx_of Gnymble" 1000 "ok_call ''m1'' 1001" "ok_call [] 1002" "hi Outbound" example_db]
  by (simp add: conversation_addMessage_def conversation_stats_def Let_def store_defs example_defs)

subsection \<open>C8: addMessage on a conversation of another brand\<close>

text \<open>
  C8. The insert of addMessage carries no brand predicate and the brand-filtered update
  that follows is not an error when it selects no row. So whenever the store accepts
  both requests and \<^verbatim>\<open>conversation_id\<close> names a conversation of a brand other than the
  client's, addMessage returns the message as a success, the message is in the store
  afterwards, and nothing else has changed.
\<close>

theorem addMessage_other_brand_inserts:
  assumes "call_fault call_insert = None" and "call_fault call_update = None"
    and "call_uuid call_insert \<notin> set (map msg_id (messages_tbl d))"
    and "conversations_constraints (conversations_tbl d)"
    and "p \<in> set (conversations_tbl d)" and "conv_id p = cm_conversation_id data"
    and "conv_brand_id p \<noteq> ctx_brand_id ctx"
  shows "\<exists>m. conversation_addMessage ctx now call_insert call_update data d
               = (Inr m, d\<lparr>messages_tbl := messages_tbl d @ [m]\<rparr>)
             \<and> msg_id m = call_uuid call_insert
             \<and> msg_conversation_id m = conv_id p
             \<and> msg_direction m = cm_direction data
             \<and> msg_content m = cm_content data"
proof -
  let ?m = "\<lparr>msg_id = call_uuid call_insert,
             msg_conversation_id = cm_conversation_id data,
             msg_direction = cm_direction data,
             msg_content = cm_content data,
             msg_media_urls = cm_media_urls data,
             msg_status = None,
             msg_external_id = cm_external_id data,
             msg_metadata = cm_metadata data,
             msg_sent_at = now,
             msg_delivered_at = None,
             msg_created_at = now\<rparr>"
  let ?d1 = "d\<lparr>messages_tbl := messages_tbl d @ [?m]\<rparr>"
  have ins: "insert_message call_insert ?m d = (Inr ?m, ?d1)"
  proof -
    have "cm_conversation_id data \<in> set (map conv_id (conversations_tbl d))"
      using assms(5,6) by (metis image_eqI list.set_map)
    then show ?thesis
      using assms(1,3) by (simp add: insert_message_def)
  qed
  have none: "\<forall>c \<in> set (conversations_tbl ?d1).
                \<not> (conv_id c = cm_conversation_id data \<and> conv_brand_id c = ctx_brand_id ctx)"
  proof
    fix c assume c: "c \<in> set (conversations_tbl ?d1)"
    show "\<not> (conv_id c = cm_conversation_id data \<and> conv_brand_id c = ctx_brand_id ctx)"
    proof
      assume h: "conv_id c = cm_conversation_id data \<and> conv_brand_id c = ctx_brand_id ctx"
      have "distinct (map conv_id (conversations_tbl d))"
        using assms(4) by (simp add: conversations_constraints_def)
      then have "c = p"
        using c assms(5,6) h by (auto intro: distinct_map_same_key [where f = conv_id])
      then show False using h assms(7) by simp
    qed
  qed
  have upd: "update_conversations call_update
               (\<lambda>c. conv_id c = cm_conversation_id data \<and> conv_brand_id c = ctx_brand_id ctx)
               (conversation_stats (cm_direction data) now) ?d1 = (None, ?d1)"
    using assms(2,4) none by (intro update_conversations_no_match) simp_all
  have "conversation_addMessage ctx now call_insert call_update data d = (Inr ?m, ?d1)"
    unfolding conversation_addMessage_def Let_def ins using upd by simp
  then show ?thesis using assms(6) by auto
qed

text \<open>
  A client of percymd adds a message to conversation v1 of gnymble: the message is
  returned and stored.
\<close>

theorem addMessage_other_brand_inserts_witness:
  "conv_brand_id thread1 = Gnymble \<and> ctx_brand_id (ctx_of Percymd) = Percymd \<and>
   conversation_addMessage (ctx_of Percymd) 1000 (ok_call ''m1'' 1001) (ok_call [] 1002)
       (hi Outbound) example_db
     = (Inr (hi_row Outbound), example_db\<lparr>messages_tbl := [hi_row Outbound]\<rparr>)"
proof -
  have h1: "call_fault (ok_call ''m1'' 1001) = None" and h2: "call_fault (ok_call [] 1002) = None"
    by (simp_all add: ok_call_def)
  have h3: "call_uuid (ok_call ''m1'' 1001) \<notin> set (map msg_id (messages_tbl example_db))"
    by (simp add: example_db_def)
  have h4: "conversations_constraints (conversations_tbl example_db)"
    by (simp add: conversations_constraints_def example_db_def thread1_def thread2_def)
  have h5: "thread1 \<in> set (conversations_tbl example_db)"
    by (simp add: example_db_def)
  have h6: "conv_id thread1 = cm_conversation_id (hi Outbound)"
    by (simp add: thread1_def hi_def)
  have h7: "conv_brand_id thread1 \<noteq> ctx_brand_id (ctx_of Percymd)"
    by (simp add: thread1_def ctx_of_def)
  from addMessage_other_brand_inserts [OF h1 h2 h3 h4 h5 h6 h7, of 1000]
  obtain m where m: "conversation_addMessage (ctx_of Percymd) 1000 (ok_call ''m1'' 1001)
        (ok_call [] 1002) (hi Outbound) example_db
      = (Inr m, example_db\<lparr>messages_tbl := messages_tbl example_db @ [m]\<rparr>)"
    by blast
  have "fst (conversation_addMessage (ctx_of Percymd) 1000 (ok_call ''m1'' 1001)
        (ok_call [] 1002) (hi Outbound) example_db) = Inr (hi_row Outbound)"
    by (simp add: conversation_addMessage_def conversation_stats_def Let_def store_defs
          example_defs)
  with m have "m = hi_row Outbound" by simp
  with m show ?thesis
    by (simp add: thread1_def ctx_of_def example_db_def)
qed

subsection \<open>C4: the timestamps addMessage writes\<close>

text \<open>
  C4, as the claim states it, fails: a call with direction inbound whose conversation
  belongs to another brand than the client's returns the message, and the parent
  conversation's \<^verbatim>\<open>last_inbound_at\<close> and \<^verbatim>\<open>last_message_at\<close> are not set. On the example
  store, with a client of percymd and conversation v1 of gnymble:
\<close>

theorem addMessage_inbound_stamps_counterexample:
  "fst (conversation_addMessage (ctx_of Percymd) 1000 (ok_call ''m1'' 1001) (ok_call [] 1002)
          (hi Inbound) example_db) = Inr (hi_row Inbound) \<and>
   map conv_id
     (conversations_tbl (snd (conversation_addMessage (ctx_of Percymd) 1000 (ok_call ''m1'' 1001)
          (ok_call [] 1002) (hi Inbound) example_db))) = [''v1'', ''v2''] \<and>
   map conv_last_inbound_at
     (conversations_tbl (snd (conversation_addMessage (ctx_of Percymd) 1000 (ok_call ''m1'' 1001)
          (ok_call [] 1002) (hi Inbound) example_db))) = [None, None] \<and>
   map conv_last_message_at
     (conversations_tbl (snd (conversation_addMessage (ctx_of Percymd) 1000 (ok_call ''m1'' 1001)
          (ok_call [] 1002) (hi Inbound) example_db))) = [None, None]"
  by (simp add: conversation_addMessage_def conversation_stats_def Let_def store_defs
        example_defs)

text \<open>
  C4, amended. Whenever addMessage returns a message, the conversations keep their
  identifiers and brands, and: with direction inbound, every conversation keeps its
  \<^verbatim>\<open>last_outbound_at\<close>, and the conversation named by \<^verbatim>\<open>conversation_id\<close>, when it
  belongs to the client's brand, has \<^verbatim>\<open>last_inbound_at\<close> and \<^verbatim>\<open>last_message_at\<close> equal
  to the call time; with direction outbound, the same with inbound and outbound
  exchanged.
\<close>

theorem addMessage_direction_stamps:
  assumes "conversation_addMessage ctx now call_insert call_update data d = (Inr m, d')"
  shows "map conv_id (conversations_tbl d') = map conv_id (conversations_tbl d) \<and>
         map conv_brand_id (conversations_tbl d') = map conv_brand_id (conversations_tbl d) \<and>
         (cm_direction data = Inbound \<longrightarrow>
            map conv_last_outbound_at (conversations_tbl d')
              = map conv_last_outbound_at (conversations_tbl d) \<and>
            (\<forall>c \<in> set (conversations_tbl d').
               conv_id c = cm_conversation_id data \<and> conv_brand_id c = ctx_brand_id ctx \<longrightarrow>
               conv_last_inbound_at c = Some now \<and> conv_last_message_at c = Some now)) \<and>
         (cm_direction data = Outbound \<longrightarrow>
            map conv_last_inbound_at (conversations_tbl d')
              = map conv_last_inbound_at (conversations_tbl d) \<and>
            (\<forall>c \<in> set (conversations_tbl d').
               conv_id c = cm_conversation_id data \<and> conv_brand_id c = ctx_brand_id ctx \<longrightarrow>
               conv_last_outbound_at c = Some now \<and> conv_last_message_at c = Some now))"
  using addMessage_cases [OF assms]
  by (auto simp: comp_def conversation_stats_def Let_def)

text \<open>
  An inbound message of gnymble's client to its own conversation v1 stamps
  \<^verbatim>\<open>last_inbound_at\<close> and \<^verbatim>\<open>last_message_at\<close> of v1 and no \<^verbatim>\<open>last_outbound_at\<close>.
\<close>

theorem addMessage_direction_stamps_witness:
  "conversation_addMessage (ctx_of Gnymble) 1000 (ok_call ''m1'' 1001) (ok_call [] 1002)
       (hi Inbound) example_db = (Inr (hi_row Inbound), example_db_inbound) \<and>
   cm_direction (hi Inbound) = Inbound \<and>
   map conv_id (conversations_tbl example_db_inbound) = [''v1'', ''v2''] \<and>
   map conv_brand_id (conversations_tbl example_db_inbound) = [Gnymble, Gnymble] \<and>
   map conv_last_inbound_at (conversations_tbl example_db_inbound) = [Some 1000, None] \<and>
   map conv_last_message_at (conversations_tbl example_db_inbound) = [Some 1000, None] \<and>
   map conv_last_outbound_at (conversations_tbl example_db_inbound)
     = map conv_last_outbound_at (conversations_tbl example_db)"
proof -
  have h: "conversation_addMessage (ctx_of Gnymble) 1000 (ok_call ''m1'' 1001) (ok_call [] 1002)
             (hi Inbound) example_db = (Inr (hi_row Inbound), example_db_inbound)"
    by (simp add: conversation_addMessage_def conversation_stats_def Let_def store_defs
          example_defs)
  have dir: "cm_direction (hi Inbound) = Inbound"
    by (simp add: hi_def)
  from addMessage_direction_stamps [OF h] dir
  have "map conv_last_outbound_at (conversations_tbl example_db_inbound)
          = map conv_last_outbound_at (conversations_tbl example_db)"
    by simp
  with h dir show ?thesis
    by (simp add: example_defs)
qed

subsection \<open>C1: brand isolation of the reads\<close>

text \<open>
  The two getters of the brand-aware client range over rows of the client's brand only.
\<close>

lemma customers_own_brand:
  "c \<in> set (customers ctx d) \<Longrightarrow> cust_brand_id c = ctx_brand_id ctx \<and> c \<in> set (customers_tbl d)"
  by (simp add: customers_def)

lemma conversations_own_brand:
  "c \<in> set (conversations ctx d) \<Longrightarrow>
     conv_brand_id c = ctx_brand_id ctx \<and> c \<in> set (conversations_tbl d)"
  by (simp add: conversations_def)

text \<open>
  C1 fails at getMessages, which reads the messages table through \<^verbatim>\<open>raw\<close> and filters
  by \<^verbatim>\<open>conversation_id\<close> alone. On the example store the client of gnymble adds a
  message to its conversation v1; the client of percymd then asks for the messages of v1
  and is given that message.
\<close>

theorem getMessages_crosses_brands:
  "conv_brand_id thread1 = Gnymble \<and> ctx_brand_id (ctx_of Percymd) = Percymd \<and>
   fst (conversation_addMessage (ctx_of Gnymble) 1000 (ok_call ''m1'' 1001) (ok_call [] 1002)
          (hi Outbound) example_db) = Inr (hi_row Outbound) \<and>
   conversation_getMessages (ctx_of Percymd) (ok_call [] 2000) ''v1'' None
       (snd (conversation_addMessage (ctx_of Gnymble) 1000 (ok_call ''m1'' 1001)
               (ok_call [] 1002) (hi Outbound) example_db))
     = Inr [hi_row Outbound]"
  by (simp add: conversation_getMessages_def conversation_addMessage_def conversation_stats_def
        Let_def store_defs example_defs)

subsection \<open>C3: the single-row lookups and the not-found signal\<close>

text \<open>
  C3. For each of getById, getByEmail, getByPhone of customers and getById, getByPhones
  of conversations: the lookup returns null exactly when the store answers its request
  with the error whose code is \<^verbatim>\<open>PGRST116\<close>; for an error with any other code it throws
  the error wrapped in the operation's own message; and when the store accepts the
  request and its tables satisfy the schema's constraints, the answer is that error,
  and the lookup returns null, exactly when no row matches.
\<close>

theorem single_lookups_null_on_not_found:
  "((customer_getById ctx call i d = Inr None)
      = (\<exists>e. select_single call (filter (\<lambda>c. cust_id c = i) (customers ctx d)) = Inl e
              \<and> err_code e = ''PGRST116'')) \<and>
   (\<forall>e. select_single call (filter (\<lambda>c. cust_id c = i) (customers ctx d)) = Inl e
          \<and> err_code e \<noteq> ''PGRST116''
      \<longrightarrow> customer_getById ctx call i d
            = Inl (Error (''Failed to get customer: '' @ err_message e))) \<and>
   (call_fault call = None \<and> constraints_hold d
      \<longrightarrow> (customer_getById ctx call i d = Inr None)
            = (filter (\<lambda>c. cust_id c = i) (customers ctx d) = [])) \<and>
   ((customer_getByEmail ctx call email d = Inr None)
      = (\<exists>e. select_single call (filter (\<lambda>c. cust_email c = email) (customers ctx d)) = Inl e
              \<and> err_code e = ''PGRST116'')) \<and>
   (\<forall>e. select_single call (filter (\<lambda>c. cust_email c = email) (customers ctx d)) = Inl e
          \<and> err_code e \<noteq> ''PGRST116''
      \<longrightarrow> customer_getByEmail ctx call email d
            = Inl (Error (''Failed to get customer by email: '' @ err_message e))) \<and>
   (call_fault call = None \<and> constraints_hold d
      \<longrightarrow> (customer_getByEmail ctx call email d = Inr None)
            = (filter (\<lambda>c. cust_email c = email) (customers ctx d) = [])) \<and>
   ((customer_getByPhone ctx call phone d = Inr None)
      = (\<exists>e. select_single call (filter (\<lambda>c. cust_phone c = Some phone) (customers ctx d)) = Inl e
              \<and> err_code e = ''PGRST116'')) \<and>
   (\<forall>e. select_single call (filter (\<lambda>c. cust_phone c = Some phone) (customers ctx d)) = Inl e
          \<and> err_code e \<noteq> ''PGRST116''
      \<longrightarrow> customer_getByPhone ctx call phone d
            = Inl (Error (''Failed to get customer by phone: '' @ err_message e))) \<and>
   (call_fault call = None \<and> constraints_hold d
      \<longrightarrow> (customer_getByPhone ctx call phone d = Inr None)
            = (filter (\<lambda>c. cust_phone c = Some phone) (customers ctx d) = [])) \<and>
   ((conversation_getById ctx call j d = Inr None)
      = (\<exists>e. select_single call (filter (\<lambda>c. conv_id c = j) (conversations ctx d)) = Inl e
              \<and> err_code e = ''PGRST116'')) \<and>
   (\<forall>e. select_single call (filter (\<lambda>c. conv_id c = j) (conversations ctx d)) = Inl e
          \<and> err_code e \<noteq> ''PGRST116''
      \<longrightarrow> conversation_getById ctx call j d
            = Inl (Error (''Failed to get conversation: '' @ err_message e))) \<and>
   (call_fault call = None \<and> constraints_hold d
      \<longrightarrow> (conversation_getById ctx call j d = Inr None)
            = (filter (\<lambda>c. conv_id c = j) (conversations ctx d) = [])) \<and>
   ((conversation_getByPhones ctx call customerPhone brandPhone d = Inr None)
      = (\<exists>e. select_single call
                (filter (\<lambda>c. conv_status c = StatusActive)
                   (filter (\<lambda>c. conv_brand_phone c = brandPhone)
                      (filter (\<lambda>c. conv_customer_phone c = customerPhone)
                         (conversations ctx d)))) = Inl e
              \<and> err_code e = ''PGRST116'')) \<and>
   (\<forall>e. select_single call
            (filter (\<lambda>c. conv_status c = StatusActive)
               (filter (\<lambda>c. conv_brand_phone c = brandPhone)
                  (filter (\<lambda>c. conv_customer_phone c = customerPhone)
                     (conversations ctx d)))) = Inl e
          \<and> err_code e \<noteq> ''PGRST116''
      \<longrightarrow> conversation_getByPhones ctx call customerPhone brandPhone d
            = Inl (Error (''Failed to get conversation by phones: '' @ err_message e))) \<and>
   (call_fault call = None \<and> constraints_hold d
      \<longrightarrow> (conversation_getByPhones ctx call customerPhone brandPhone d = Inr None)
            = (filter (\<lambda>c. conv_status c = StatusActive)
                 (filter (\<lambda>c. conv_brand_phone c = brandPhone)
                    (filter (\<lambda>c. conv_customer_phone c = customerPhone)
                       (conversations ctx d))) = []))"
proof -
  have ch: "constraints_hold d \<Longrightarrow> conversations_constraints (conversations_tbl d)"
    by (simp add: constraints_hold_def)
  have a1: "(customer_getById ctx call i d = Inr None)
      = (\<exists>e. select_single call (filter (\<lambda>c. cust_id c = i) (customers ctx d)) = Inl e
              \<and> err_code e = ''PGRST116'')"
    unfolding customer_getById_def by (rule single_lookup_null_iff)
  have a2: "(customer_getByEmail ctx call email d = Inr None)
      = (\<exists>e. select_single call (filter (\<lambda>c. cust_email c = email) (customers ctx d)) = Inl e
              \<and> err_code e = ''PGRST116'')"
    unfolding customer_getByEmail_def by (rule single_lookup_null_iff)
  have a3: "(customer_getByPhone ctx call phone d = Inr None)
      = (\<exists>e. select_single call (filter (\<lambda>c. cust_phone c = Some phone) (customers ctx d)) = Inl e
              \<and> err_code e = ''PGRST116'')"
    unfolding customer_getByPhone_def by (rule single_lookup_null_iff)
  have a4: "(conversation_getById ctx call j d = Inr None)
      = (\<exists>e. select_single call (filter (\<lambda>c. conv_id c = j) (conversations ctx d)) = Inl e
              \<and> err_code e = ''PGRST116'')"
    unfolding conversation_getById_def by (rule single_lookup_null_iff)
  have a5: "(conversation_getByPhones ctx call customerPhone brandPhone d = Inr None)
      = (\<exists>e. select_single call
                (filter (\<lambda>c. conv_status c = StatusActive)
                   (filter (\<lambda>c. conv_brand_phone c = brandPhone)
                      (filter (\<lambda>c. conv_customer_phone c = customerPhone)
                         (conversations ctx d)))) = Inl e
              \<and> err_code e = ''PGRST116'')"
    unfolding conversation_getByPhones_def by (rule single_lookup_null_iff)
  have b1: "\<forall>e. select_single call (filter (\<lambda>c. cust_id c = i) (customers ctx d)) = Inl e
          \<and> err_code e \<noteq> ''PGRST116''
      \<longrightarrow> customer_getById ctx call i d
            = Inl (Error (''Failed to get customer: '' @ err_message e))"
    by (simp add: customer_getById_def)
  have b2: "\<forall>e. select_single call (filter (\<lambda>c. cust_email c = email) (customers ctx d)) = Inl e
          \<and> err_code e \<noteq> ''PGRST116''
      \<longrightarrow> customer_getByEmail ctx call email d
            = Inl (Error (''Failed to get customer by email: '' @ err_message e))"
    by (simp add: customer_getByEmail_def)
  have b3: "\<forall>e. select_single call (filter (\<lambda>c. cust_phone c = Some phone) (customers ctx d)) = Inl e
          \<and> err_code e \<noteq> ''PGRST116''
      \<longrightarrow> customer_getByPhone ctx call phone d
            = Inl (Error (''Failed to get customer by phone: '' @ err_message e))"
    by (simp add: customer_getByPhone_def)
  have b4: "\<forall>e. select_single call (filter (\<lambda>c. conv_id c = j) (conversations ctx d)) = Inl e
          \<and> err_code e \<noteq> ''PGRST116''
      \<longrightarrow> conversation_getById ctx call j d
            = Inl (Error (''Failed to get conversation: '' @ err_message e))"
    by (simp add: conversation_getById_def)
  have b5: "\<forall>e. select_single call
            (filter (\<lambda>c. conv_status c = StatusActive)
               (filter (\<lambda>c. conv_brand_phone c = brandPhone)
                  (filter (\<lambda>c. conv_customer_phone c = customerPhone)
                     (conversations ctx d)))) = Inl e
          \<and> err_code e \<noteq> ''PGRST116''
      \<longrightarrow> conversation_getByPhones ctx call customerPhone brandPhone d
            = Inl (Error (''Failed to get conversation by phones: '' @ err_message e))"
    by (simp add: conversation_getByPhones_def)
  have c1: "call_fault call = None \<and> constraints_hold d
      \<longrightarrow> (customer_getById ctx call i d = Inr None)
            = (filter (\<lambda>c. cust_id c = i) (customers ctx d) = [])"
    unfolding a1 using select_single_no_rows_iff [OF _ customer_getById_rows] by blast
  have c2: "call_fault call = None \<and> constraints_hold d
      \<longrightarrow> (customer_getByEmail ctx call email d = Inr None)
            = (filter (\<lambda>c. cust_email c = email) (customers ctx d) = [])"
    unfolding a2 using select_single_no_rows_iff [OF _ customer_getByEmail_rows] by blast
  have c3: "call_fault call = None \<and> constraints_hold d
      \<longrightarrow> (customer_getByPhone ctx call phone d = Inr None)
            = (filter (\<lambda>c. cust_phone c = Some phone) (customers ctx d) = [])"
    unfolding a3 using select_single_no_rows_iff [OF _ customer_getByPhone_rows] by blast
  have c4: "call_fault call = None \<and> constraints_hold d
      \<longrightarrow> (conversation_getById ctx call j d = Inr None)
            = (filter (\<lambda>c. conv_id c = j) (conversations ctx d) = [])"
    unfolding a4 using select_single_no_rows_iff [OF _ conversation_getById_rows] by blast
  have c5: "call_fault call = None \<and> constraints_hold d
      \<longrightarrow> (conversation_getByPhones ctx call customerPhone brandPhone d = Inr None)
            = (filter (\<lambda>c. conv_status c = StatusActive)
                 (filter (\<lambda>c. conv_brand_phone c = brandPhone)
                    (filter (\<lambda>c. conv_customer_phone c = customerPhone)
                       (conversations ctx d))) = [])"
    unfolding a5 using select_single_no_rows_iff [OF _ conversation_getByPhones_rows] ch by blast
  show ?thesis
    by (intro conjI) (fact a1 b1 c1 a2 b2 c2 a3 b3 c3 a4 b4 c4 a5 b5 c5)+
qed

text \<open>
  On the example store: an unknown id, a customer of another brand, a paused
  conversation and unknown keys give null; a statement timeout is thrown, wrapped.
\<close>

theorem single_lookups_null_on_not_found_witness:
  "customer_getById (ctx_of Gnymble) (ok_call [] 1) ''c9'' example_db = Inr None \<and>
   customer_getById (ctx_of Percymd) (ok_call [] 1) ''c1'' example_db = Inr None \<and>
   customer_getById (ctx_of Gnymble)
       (failing_call \<lparr>err_code = ''57014'', err_message = ''statement timeout''\<rparr>)
       ''c1'' example_db
     = Inl (Error ''Failed to get customer: statement timeout'') \<and>
   customer_getByEmail (ctx_of Gnymble) (ok_call [] 1) ''q@b.com'' example_db = Inr None \<and>
   customer_getByPhone (ctx_of Gnymble) (ok_call [] 1) ''+15550000000'' example_db = Inr None \<and>
   conversation_getById (ctx_of Gnymble) (ok_call [] 1) ''v9'' example_db = Inr None \<and>
   conversation_getByPhones (ctx_of Gnymble) (ok_call [] 1) ''+15550000002'' ''+15557654321''
       example_db = Inr None"
proof -
  have ok: "call_fault (ok_call [] 1) = None"
    by (simp add: ok_call_def)
  have ch: "constraints_hold example_db"
    by (simp add: store_defs example_defs)
  note a = single_lookups_null_on_not_found
             [of "ctx_of Gnymble" "ok_call [] 1" "''c9''" example_db "''q@b.com''"
                 "''+15550000000''" "''v9''" "''+15550000002''" "''+15557654321''"]
  note b = single_lookups_null_on_not_found
             [of "ctx_of Percymd" "ok_call [] 1" "''c1''" example_db]
  note c = single_lookups_null_on_not_found
             [of "ctx_of Gnymble"
                 "failing_call \<lparr>err_code = ''57014'', err_message = ''statement timeout''\<rparr>"
                 "''c1''" example_db]
  have g1: "customer_getById (ctx_of Gnymble) (ok_call [] 1) ''c9'' example_db = Inr None"
    using a [THEN conjunct2, THEN conjunct2, THEN conjunct1] ok ch
    by (simp add: customers_def example_defs)
  have g2: "customer_getById (ctx_of Percymd) (ok_call [] 1) ''c1'' example_db = Inr None"
    using b [THEN conjunct2, THEN conjunct2, THEN conjunct1] ok ch
    by (simp add: customers_def example_defs)
  have g3: "customer_getById (ctx_of Gnymble)
       (failing_call \<lparr>err_code = ''57014'', err_message = ''statement timeout''\<rparr>)
       ''c1'' example_db
     = Inl (Error ''Failed to get customer: statement timeout'')"
    using c [THEN conjunct2, THEN conjunct1]
    by (simp add: select_single_def failing_call_def)
  have g4: "customer_getByEmail (ctx_of Gnymble) (ok_call [] 1) ''q@b.com'' example_db = Inr None"
    by (simp add: customer_getByEmail_def store_defs example_defs)
  have g5: "customer_getByPhone (ctx_of Gnymble) (ok_call [] 1) ''+15550000000'' example_db
              = Inr None"
    by (simp add: customer_getByPhone_def store_defs example_defs)
  have g6: "conversation_getById (ctx_of Gnymble) (ok_call [] 1) ''v9'' example_db = Inr None"
    by (simp add: conversation_getById_def store_defs example_defs)
  have g7: "conversation_getByPhones (ctx_of Gnymble) (ok_call [] 1) ''+15550000002''
              ''+15557654321'' example_db = Inr None"
    by (simp add: conversation_getByPhones_def store_defs example_defs)
  from g1 g2 g3 g4 g5 g6 g7 show ?thesis
    by (intro conjI)
qed

subsection \<open>C5: progressStage to churned\<close>

lemma progressStage_churned_returned:
  assumes "customer_progressStage ctx now now_update call i StageChurned d = (Inr c', d')"
  shows "cust_id c' = i \<and> cust_brand_id c' = ctx_brand_id ctx \<and> cust_stage c' = StageChurned
           \<and> \<not> cust_is_active c' \<and> cust_churned_at c' = Some now
           \<and> c' \<in> set (customers_tbl d')"
proof -
  let ?data = "no_update\<lparr>upd_stage := Some StageChurned, upd_churned_at := Some now,
                       upd_is_active := Some False\<rparr>"
  from assms have upd: "customer_update ctx now_update call i ?data d = (Inr c', d')"
    by (simp add: customer_progressStage_def Let_def)
  from customer_update_cases [OF this]
  obtain c where c: "filter (\<lambda>c. cust_id c = i \<and> cust_brand_id c = ctx_brand_id ctx)
                       (customers_tbl d) = [c]"
    and c': "c' = (set_customer ?data now_update c)\<lparr>cust_updated_at := call_now call\<rparr>"
    and d': "d' = d\<lparr>customers_tbl :=
                   map (\<lambda>c. if cust_id c = i \<and> cust_brand_id c = ctx_brand_id ctx
                            then (set_customer ?data now_update c)
                                   \<lparr>cust_updated_at := call_now call\<rparr>
                            else c)
                     (customers_tbl d)\<rparr>"
    by auto
  have "c \<in> set (filter (\<lambda>c. cust_id c = i \<and> cust_brand_id c = ctx_brand_id ctx) (customers_tbl d))"
    unfolding c by simp
  then have cin: "c \<in> set (customers_tbl d)" and cid: "cust_id c = i"
    and cb: "cust_brand_id c = ctx_brand_id ctx"
    by simp_all
  have "c' \<in> set (customers_tbl d')"
    unfolding d' c' using cin cid cb by (auto intro!: image_eqI [where x = c])
  moreover have "cust_id c' = i \<and> cust_brand_id c' = ctx_brand_id ctx \<and> cust_stage c' = StageChurned
           \<and> \<not> cust_is_active c' \<and> cust_churned_at c' = Some now"
    unfolding c' using cid cb by (simp add: set_customer_def no_update_def)
  ultimately show ?thesis
    by simp
qed

lemma progressStage_churned_succeeds:
  assumes "call_fault call = None" and "customers_constraints (customers_tbl d)"
    and "c \<in> set (customers ctx d)" and "cust_id c = i"
  shows "\<exists>c' d'. customer_progressStage ctx now now_update call i StageChurned d = (Inr c', d')
             \<and> (\<forall>x \<in> set (customers_tbl d').
                   cust_id x = i \<longrightarrow> \<not> cust_is_active x \<and> cust_churned_at x = Some now)"
proof -
  from assms(3) have cin: "c \<in> set (customers_tbl d)"
    and cb: "cust_brand_id c = ctx_brand_id ctx"
    by (auto simp: customers_def)
  note cid = assms(4)
  let ?data = "no_update\<lparr>upd_stage := Some StageChurned, upd_churned_at := Some now,
                       upd_is_active := Some False\<rparr>"
  have ids: "distinct (map cust_id (customers_tbl d))"
    using assms(2) by (simp add: customers_constraints_def)
  have ok: "customer_update ctx now_update call i ?data d
           = (Inr ((set_customer ?data now_update c)\<lparr>cust_updated_at := call_now call\<rparr>),
              d\<lparr>customers_tbl :=
                   map (\<lambda>c. if cust_id c = i \<and> cust_brand_id c = ctx_brand_id ctx
                            then (set_customer ?data now_update c)\<lparr>cust_updated_at := call_now call\<rparr>
                            else c)
                     (customers_tbl d)\<rparr>)"
    using assms(1,2) cin cid cb by (intro customer_update_ok) (simp_all add: no_update_def)
  let ?g = "\<lambda>c. if cust_id c = i \<and> cust_brand_id c = ctx_brand_id ctx
                 then (set_customer ?data now_update c)\<lparr>cust_updated_at := call_now call\<rparr>
                 else c"
  define d' where "d' = d\<lparr>customers_tbl := map ?g (customers_tbl d)\<rparr>"
  have tbl: "customers_tbl d' = map ?g (customers_tbl d)"
    by (simp add: d'_def)
  have marked: "\<not> cust_is_active x \<and> cust_churned_at x = Some now"
    if x: "x \<in> set (customers_tbl d')" and xi: "cust_id x = i" for x
  proof -
    from x have "x \<in> ?g ` set (customers_tbl d)"
      unfolding tbl set_map .
    then obtain y where xy: "x = ?g y" and y: "y \<in> set (customers_tbl d)"
      by (rule imageE)
    have gy: "cust_id (?g y) = cust_id y"
      by simp
    have yi: "cust_id y = i"
      using xi unfolding xy gy .
    then have "cust_id y = cust_id c"
      using cid by simp
    with ids y cin have yc: "y = c"
      by (rule distinct_map_same_key)
    have gc: "?g c = (set_customer ?data now_update c)\<lparr>cust_updated_at := call_now call\<rparr>"
      using cid cb by simp
    have "x = (set_customer ?data now_update c)\<lparr>cust_updated_at := call_now call\<rparr>"
      unfolding xy yc gc ..
    then show ?thesis
      by (simp add: set_customer_def no_update_def)
  qed
  have "customer_progressStage ctx now now_update call i StageChurned d
           = (Inr ((set_customer ?data now_update c)\<lparr>cust_updated_at := call_now call\<rparr>), d')"
    unfolding customer_progressStage_def Let_def d'_def using ok by simp
  with marked show ?thesis
    by blast
qed

text \<open>
  C5. Whenever \<^verbatim>\<open>progressStage(id, "churned")\<close> returns, the row it returns is the
  client's-brand customer with that id, is stored, and has stage churned,
  \<^verbatim>\<open>is_active\<close> false and \<^verbatim>\<open>churned_at\<close> equal to the call time. And for every customer
  of the client's brand that exists in a store satisfying the customers constraints,
  the call does return when the store accepts the request, and afterwards every stored
  customer with that id has \<^verbatim>\<open>is_active\<close> false and \<^verbatim>\<open>churned_at\<close> set.
\<close>

theorem progressStage_churned:
  "(\<forall>c' d'. customer_progressStage ctx now now_update call i StageChurned d = (Inr c', d')
       \<longrightarrow> cust_id c' = i \<and> cust_brand_id c' = ctx_brand_id ctx \<and> cust_stage c' = StageChurned
           \<and> \<not> cust_is_active c' \<and> cust_churned_at c' = Some now
           \<and> c' \<in> set (customers_tbl d')) \<and>
   (call_fault call = None \<and> customers_constraints (customers_tbl d)
      \<and> (\<exists>c \<in> set (customers ctx d). cust_id c = i)
      \<longrightarrow> (\<exists>c' d'. customer_progressStage ctx now now_update call i StageChurned d = (Inr c', d')
             \<and> (\<forall>x \<in> set (customers_tbl d').
                   cust_id x = i \<longrightarrow> \<not> cust_is_active x \<and> cust_churned_at x = Some now)))"
proof (rule conjI)
  show "\<forall>c' d'. customer_progressStage ctx now now_update call i StageChurned d = (Inr c', d')
       \<longrightarrow> cust_id c' = i \<and> cust_brand_id c' = ctx_brand_id ctx \<and> cust_stage c' = StageChurned
           \<and> \<not> cust_is_active c' \<and> cust_churned_at c' = Some now
           \<and> c' \<in> set (customers_tbl d')"
    by (intro allI impI) (rule progressStage_churned_returned)
next
  show "call_fault call = None \<and> customers_constraints (customers_tbl d)
      \<and> (\<exists>c \<in> set (customers ctx d). cust_id c = i)
      \<longrightarrow> (\<exists>c' d'. customer_progressStage ctx now now_update call i StageChurned d = (Inr c', d')
             \<and> (\<forall>x \<in> set (customers_tbl d').
                   cust_id x = i \<longrightarrow> \<not> cust_is_active x \<and> cust_churned_at x = Some now))"
    by (rule impI, elim conjE bexE) (rule progressStage_churned_succeeds)
qed

text \<open>On the example store, churning customer c1 at time 10.\<close>

theorem progressStage_churned_witness:
  "fst (customer_progressStage (ctx_of Gnymble) 10 11 (ok_call [] 12) ''c1'' StageChurned
          example_db)
     = Inr (alice\<lparr>cust_stage := StageChurned, cust_is_active := False,
                  cust_churned_at := Some 10, cust_updated_at := 12\<rparr>) \<and>
   cust_is_active alice \<and> cust_churned_at alice = None \<and>
   \<not> cust_is_active (alice\<lparr>cust_stage := StageChurned, cust_is_active := False,
                  cust_churned_at := Some 10, cust_updated_at := 12\<rparr>) \<and>
   cust_churned_at (alice\<lparr>cust_stage := StageChurned, cust_is_active := False,
                  cust_churned_at := Some 10, cust_updated_at := 12\<rparr>) = Some 10 \<and>
   map (\<lambda>c. (cust_id c, cust_is_active c, cust_churned_at c))
     (customers_tbl (snd (customer_progressStage (ctx_of Gnymble) 10 11 (ok_call [] 12) ''c1''
          StageChurned example_db)))
     = [(''c1'', False, Some 10), (''c2'', True, None)]"
proof -
  let ?r = "customer_progressStage (ctx_of Gnymble) 10 11 (ok_call [] 12) ''c1'' StageChurned
              example_db"
  let ?c = "alice\<lparr>cust_stage := StageChurned, cust_is_active := False,
                  cust_churned_at := Some 10, cust_updated_at := 12\<rparr>"
  have f: "fst ?r = Inr ?c"
    by (simp add: customer_progressStage_def customer_update_def set_customer_def no_update_def
          Let_def store_defs example_defs)
  have s: "map (\<lambda>c. (cust_id c, cust_is_active c, cust_churned_at c)) (customers_tbl (snd ?r))
             = [(''c1'', False, Some 10), (''c2'', True, None)]"
    by (simp add: customer_progressStage_def customer_update_def set_customer_def no_update_def
          Let_def store_defs example_defs)
  from f have eq: "?r = (Inr ?c, snd ?r)"
    by (simp add: prod_eq_iff)
  from progressStage_churned [THEN conjunct1, rule_format, OF eq]
  have "\<not> cust_is_active ?c \<and> cust_churned_at ?c = Some 10"
    by simp
  moreover have "cust_is_active alice \<and> cust_churned_at alice = None"
    by (simp add: alice_def)
  ultimately show ?thesis
    using f s by simp
qed

subsection \<open>C6: adding tags twice\<close>

text \<open>
  C6, as the claim states it for every customer, fails for a customer that already has
  a tag outside {a, b, c}: customer c2 of the example store has the tag z, and after the
  two calls its tags are z, a, b, c.
\<close>

theorem addTags_twice_counterexample:
  "cust_id zoe = ''c2'' \<and> cust_tags zoe = Some [''z''] \<and>
   fst (customer_addTags (ctx_of Gnymble) (ok_call [] 4) 5 (ok_call [] 6) ''c2'' [''b'', ''c'']
          (snd (customer_addTags (ctx_of Gnymble) (ok_call [] 1) 2 (ok_call [] 3) ''c2''
                  [''a'', ''b''] example_db)))
     = Inr (zoe\<lparr>cust_tags := Some [''z'', ''a'', ''b'', ''c''], cust_updated_at := 6\<rparr>) \<and>
   map cust_tags
     (customers_tbl
        (snd (customer_addTags (ctx_of Gnymble) (ok_call [] 4) 5 (ok_call [] 6) ''c2''
                [''b'', ''c'']
                (snd (customer_addTags (ctx_of Gnymble) (ok_call [] 1) 2 (ok_call [] 3) ''c2''
                        [''a'', ''b''] example_db)))))
     = [None, Some [''z'', ''a'', ''b'', ''c'']] \<and>
   set [''z'', ''a'', ''b'', ''c''] \<noteq> {''a'', ''b'', ''c''}"
proof -
  let ?r1 = "customer_addTags (ctx_of Gnymble) (ok_call [] 1) 2 (ok_call [] 3) ''c2''
               [''a'', ''b''] example_db"
  let ?r2 = "customer_addTags (ctx_of Gnymble) (ok_call [] 4) 5 (ok_call [] 6) ''c2''
               [''b'', ''c''] (snd ?r1)"
  note defs = customer_addTags_def customer_getById_def customer_update_def set_customer_def
        no_update_def new_Set_def set_insert_def Let_def store_defs example_defs
  have a1: "cust_id zoe = ''c2''" and a2: "cust_tags zoe = Some [''z'']"
    by (simp_all add: zoe_def)
  have b: "fst ?r2 = Inr (zoe\<lparr>cust_tags := Some [''z'', ''a'', ''b'', ''c''], cust_updated_at := 6\<rparr>)"
    by (simp add: defs)
  have c: "map cust_tags (customers_tbl (snd ?r2)) = [None, Some [''z'', ''a'', ''b'', ''c'']]"
    by (simp add: defs)
  have d: "set [''z'', ''a'', ''b'', ''c''] \<noteq> {''a'', ''b'', ''c''}"
  proof
    assume eq: "set [''z'', ''a'', ''b'', ''c''] = {''a'', ''b'', ''c''}"
    have "''z'' \<in> set [''z'', ''a'', ''b'', ''c'']"
      by simp
    then have "''z'' \<in> {''a'', ''b'', ''c''}"
      unfolding eq .
    then show False
      by simp
  qed
  show ?thesis
    by (intro conjI) (fact a1 a2 b c d)+
qed

text \<open>
  C6, amended. When \<^verbatim>\<open>addTags(id, tags1)\<close> and then \<^verbatim>\<open>addTags(id, tags2)\<close> both return,
  the customer's tags afterwards have no duplicates and are, as a set, the tags the
  customer had before together with \<^verbatim>\<open>tags1\<close> and \<^verbatim>\<open>tags2\<close>. The set does not depend on
  the order of the two calls or of the tags, and for a customer without tags and the
  arguments \<^verbatim>\<open>["a","b"]\<close>, \<^verbatim>\<open>["b","c"]\<close> it is {a, b, c}.
\<close>

theorem addTags_twice_union:
  assumes "customer_addTags ctx get1 now1 upd1 i tags1 d = (Inr c1, d1)"
    and "customer_addTags ctx get2 now2 upd2 i tags2 d1 = (Inr c2, d2)"
  shows "\<exists>c ts. filter (\<lambda>x. cust_id x = i) (customers ctx d) = [c]
           \<and> filter (\<lambda>x. cust_id x = i) (customers ctx d2) = [c2]
           \<and> cust_tags c2 = Some ts \<and> distinct ts
           \<and> set ts = set (case cust_tags c of Some old \<Rightarrow> old | None \<Rightarrow> [])
                        \<union> set tags1 \<union> set tags2"
proof -
  let ?P = "\<lambda>c. cust_id c = i \<and> cust_brand_id c = ctx_brand_id ctx"
  from addTags_row [OF assms(1)]
  obtain c where c: "filter ?P (customers_tbl d) = [c]"
    and t1: "cust_tags c1 = Some (new_Set ((case cust_tags c of Some ts \<Rightarrow> ts | None \<Rightarrow> []) @ tags1))"
    and r1: "filter ?P (customers_tbl d1) = [c1]"
    by blast
  from addTags_row [OF assms(2)] r1
  have t2: "cust_tags c2 = Some (new_Set ((case cust_tags c1 of Some ts \<Rightarrow> ts | None \<Rightarrow> []) @ tags2))"
    and r2: "filter ?P (customers_tbl d2) = [c2]"
    by auto
  have by_id: "filter (\<lambda>x. cust_id x = i) (customers ctx t) = filter ?P (customers_tbl t)" for t
    by (simp add: customers_def conj_commute)
  have cin: "filter (\<lambda>x. cust_id x = i) (customers ctx d) = [c]"
    unfolding by_id by (rule c)
  have c2in: "filter (\<lambda>x. cust_id x = i) (customers ctx d2) = [c2]"
    unfolding by_id by (rule r2)
  let ?ts = "new_Set (new_Set ((case cust_tags c of Some ts \<Rightarrow> ts | None \<Rightarrow> []) @ tags1) @ tags2)"
  have tags: "cust_tags c2 = Some ?ts"
    unfolding t2 t1 by simp
  have "distinct ?ts"
    by simp
  moreover have "set ?ts = set (case cust_tags c of Some old \<Rightarrow> old | None \<Rightarrow> [])
                        \<union> set tags1 \<union> set tags2"
    by simp
  ultimately show ?thesis
    using cin c2in tags by blast
qed

text \<open>Customer c1 of the example store has no tags: after the two calls it has a, b, c.\<close>

theorem addTags_twice_union_witness:
  "cust_tags alice = None \<and>
   fst (customer_addTags (ctx_of Gnymble) (ok_call [] 1) 2 (ok_call [] 3) ''c1'' [''a'', ''b'']
          example_db)
     = Inr (alice\<lparr>cust_tags := Some [''a'', ''b''], cust_updated_at := 3\<rparr>) \<and>
   fst (customer_addTags (ctx_of Gnymble) (ok_call [] 4) 5 (ok_call [] 6) ''c1'' [''b'', ''c'']
          (snd (customer_addTags (ctx_of Gnymble) (ok_call [] 1) 2 (ok_call [] 3) ''c1''
                  [''a'', ''b''] example_db)))
     = Inr (alice\<lparr>cust_tags := Some [''a'', ''b'', ''c''], cust_updated_at := 6\<rparr>) \<and>
   (\<exists>ts. cust_tags (alice\<lparr>cust_tags := Some [''a'', ''b'', ''c''], cust_updated_at := 6\<rparr>)
            = Some ts \<and> distinct ts \<and> set ts = {''a'', ''b'', ''c''})"
proof -
  let ?r1 = "customer_addTags (ctx_of Gnymble) (ok_call [] 1) 2 (ok_call [] 3) ''c1''
               [''a'', ''b''] example_db"
  let ?r2 = "customer_addTags (ctx_of Gnymble) (ok_call [] 4) 5 (ok_call [] 6) ''c1''
               [''b'', ''c''] (snd ?r1)"
  let ?c1 = "alice\<lparr>cust_tags := Some [''a'', ''b''], cust_updated_at := 3\<rparr>"
  let ?c2 = "alice\<lparr>cust_tags := Some [''a'', ''b'', ''c''], cust_updated_at := 6\<rparr>"
  note defs = customer_addTags_def customer_getById_def customer_update_def set_customer_def
        no_update_def new_Set_def set_insert_def Let_def store_defs example_defs
  have f1: "fst ?r1 = Inr ?c1"
    by (simp add: defs)
  have f2: "fst ?r2 = Inr ?c2"
    by (simp add: defs)
  from f1 have e1: "?r1 = (Inr ?c1, snd ?r1)"
    by (simp add: prod_eq_iff)
  from f2 have e2: "?r2 = (Inr ?c2, snd ?r2)"
    by (simp add: prod_eq_iff)
  from addTags_twice_union [OF e1 e2]
  obtain c ts where c: "filter (\<lambda>x. cust_id x = ''c1'') (customers (ctx_of Gnymble) example_db) = [c]"
    and ts: "cust_tags ?c2 = Some ts" "distinct ts"
      "set ts = set (case cust_tags c of Some old \<Rightarrow> old | None \<Rightarrow> [])
                  \<union> set [''a'', ''b''] \<union> set [''b'', ''c'']"
    by blast
  from c have "c = alice"
    by (simp add: customers_def example_db_def ctx_of_def alice_def zoe_def)
  then have "set (case cust_tags c of Some old \<Rightarrow> old | None \<Rightarrow> []) = {}"
    by (simp add: alice_def)
  with ts have "\<exists>ts. cust_tags ?c2 = Some ts \<and> distinct ts \<and> set ts = {''a'', ''b'', ''c''}"
    by auto
  moreover have "cust_tags alice = None"
    by (simp add: alice_def)
  ultimately show ?thesis
    using f1 f2 by blast
qed

subsection \<open>C9: findOrCreate and conversations that are not active\<close>

text \<open>
  C9. A conversation that findOrCreate returns and that was already stored is active and
  matches the brand and the phone pair, and nothing was written. And for every stored
  conversation with the client's brand and the given phone pair whose status is not
  active (paused, completed or archived), in a store satisfying the conversations
  constraints, findOrCreate does not return it: the call throws and leaves the store as
  it was, and when the store accepts both requests the error is the insert's violation
  of the unique constraint \<^verbatim>\<open>conversations_brand_phones_unique\<close>.
\<close>

theorem findOrCreate_only_active_else_collides:
  "(\<forall>c' d'. conversation_findOrCreate ctx call_get now_created now_updated call_insert
               customerId customerPhone brandPhone campaignData d = (Inr c', d')
             \<and> c' \<in> set (conversations_tbl d)
      \<longrightarrow> conv_status c' = StatusActive \<and> conv_brand_id c' = ctx_brand_id ctx
          \<and> conv_customer_phone c' = customerPhone \<and> conv_brand_phone c' = brandPhone
          \<and> d' = d) \<and>
   (\<forall>c. conversations_constraints (conversations_tbl d) \<and> c \<in> set (conversations_tbl d)
          \<and> conv_brand_id c = ctx_brand_id ctx \<and> conv_customer_phone c = customerPhone
          \<and> conv_brand_phone c = brandPhone \<and> conv_status c \<noteq> StatusActive
      \<longrightarrow> (\<exists>msg. conversation_findOrCreate ctx call_get now_created now_updated call_insert
                     customerId customerPhone brandPhone campaignData d = (Inl (Error msg), d))
          \<and> (call_fault call_get = None \<and> call_fault call_insert = None
                \<and> call_uuid call_insert \<notin> set (map conv_id (conversations_tbl d))
              \<longrightarrow> conversation_findOrCreate ctx call_get now_created now_updated call_insert
                     customerId customerPhone brandPhone campaignData d
                   = (Inl (Error (''Failed to create conversation: ''
                        @ err_message (unique_violation ''conversations_brand_phones_unique''))),
                      d)))"
proof (rule conjI)
  show "\<forall>c' d'. conversation_findOrCreate ctx call_get now_created now_updated call_insert
               customerId customerPhone brandPhone campaignData d = (Inr c', d')
             \<and> c' \<in> set (conversations_tbl d)
      \<longrightarrow> conv_status c' = StatusActive \<and> conv_brand_id c' = ctx_brand_id ctx
          \<and> conv_customer_phone c' = customerPhone \<and> conv_brand_phone c' = brandPhone
          \<and> d' = d"
    by (intro allI impI, elim conjE) (rule findOrCreate_existing_only_active)
next
  show "\<forall>c. conversations_constraints (conversations_tbl d) \<and> c \<in> set (conversations_tbl d)
          \<and> conv_brand_id c = ctx_brand_id ctx \<and> conv_customer_phone c = customerPhone
          \<and> conv_brand_phone c = brandPhone \<and> conv_status c \<noteq> StatusActive
      \<longrightarrow> (\<exists>msg. conversation_findOrCreate ctx call_get now_created now_updated call_insert
                     customerId customerPhone brandPhone campaignData d = (Inl (Error msg), d))
          \<and> (call_fault call_get = None \<and> call_fault call_insert = None
                \<and> call_uuid call_insert \<notin> set (map conv_id (conversations_tbl d))
              \<longrightarrow> conversation_findOrCreate ctx call_get now_created now_updated call_insert
                     customerId customerPhone brandPhone campaignData d
                   = (Inl (Error (''Failed to create conversation: ''
                        @ err_message (unique_violation ''conversations_brand_phones_unique''))),
                      d))"
    by (intro allI impI, elim conjE) (rule findOrCreate_inactive)
qed

text \<open>
  On the example store the paused conversation v2 makes findOrCreate throw on its phone
  pair, while the active conversation v1 is returned for its pair.
\<close>

theorem findOrCreate_only_active_else_collides_witness:
  "conv_status thread2 = StatusPaused \<and>
   conversation_findOrCreate (ctx_of Gnymble) (ok_call [] 1) 2 3 (ok_call ''v3'' 4)
       ''c2'' ''+15550000002'' ''+15557654321'' None example_db
     = (Inl (Error (''Failed to create conversation: ''
                   @ ''duplicate key value violates unique constraint ''
                   @ quoted ''conversations_brand_phones_unique'')),
        example_db) \<and>
   conversation_findOrCreate (ctx_of Gnymble) (ok_call [] 1) 2 3 (ok_call ''v3'' 4)
       ''c1'' ''+15551234567'' ''+15557654321'' None example_db
     = (Inr thread1, example_db)"
proof -
  have h: "conversations_constraints (conversations_tbl example_db)
          \<and> thread2 \<in> set (conversations_tbl example_db)
          \<and> conv_brand_id thread2 = ctx_brand_id (ctx_of Gnymble)
          \<and> conv_customer_phone thread2 = ''+15550000002''
          \<and> conv_brand_phone thread2 = ''+15557654321'' \<and> conv_status thread2 \<noteq> StatusActive"
    by (simp add: store_defs example_defs)
  have ok: "call_fault (ok_call [] 1) = None \<and> call_fault (ok_call ''v3'' 4) = None
          \<and> call_uuid (ok_call ''v3'' 4) \<notin> set (map conv_id (conversations_tbl example_db))"
    by (simp add: example_defs)
  note t = findOrCreate_only_active_else_collides
             [of "ctx_of Gnymble" "ok_call [] 1" 2 3 "ok_call ''v3'' 4" "''c2''"
                 "''+15550000002''" "''+15557654321''" None example_db]
  from t [THEN conjunct2, rule_format, OF h, THEN conjunct2, rule_format, OF ok]
  have a: "conversation_findOrCreate (ctx_of Gnymble) (ok_call [] 1) 2 3 (ok_call ''v3'' 4)
       ''c2'' ''+15550000002'' ''+15557654321'' None example_db
     = (Inl (Error (''Failed to create conversation: ''
                   @ ''duplicate key value violates unique constraint ''
                   @ quoted ''conversations_brand_phones_unique'')),
        example_db)"
    by (simp add: unique_violation_def)
  have b: "conversation_findOrCreate (ctx_of Gnymble) (ok_call [] 1) 2 3 (ok_call ''v3'' 4)
       ''c1'' ''+15551234567'' ''+15557654321'' None example_db
     = (Inr thread1, example_db)"
    by (simp add: conversation_findOrCreate_def conversation_getByPhones_def store_defs example_defs)
  have c: "conv_status thread2 = StatusPaused"
    by (simp add: thread2_def)
  show ?thesis
    by (intro conjI) (fact a b c)+
qed

subsection \<open>C10: the analytics ratios\<close>

text \<open>
  C10. Neither aggregation divides by zero. Whenever the customer analytics return, the
  conversion rate is a finite number, and it is 0 when the brand has no customer in
  stage lead; whenever the conversation analytics return, the average number of messages
  per conversation is a finite number, and it is 0 when no conversation matches. Both
  return whenever the store accepts the request.
\<close>

theorem analytics_zero_denominator:
  "(\<forall>a. customer_getAnalytics ctx call d = Inr a
      \<longrightarrow> (\<exists>r. ca_conversionRate a = Finite r)
          \<and> (filter (\<lambda>c. cust_stage c = StageLead) (customers ctx d) = []
               \<longrightarrow> ca_conversionRate a = Finite 0)) \<and>
   (call_fault call = None \<longrightarrow> (\<exists>a. customer_getAnalytics ctx call d = Inr a)) \<and>
   (\<forall>b. conversation_getAnalytics ctx call timeRange d = Inr b
      \<longrightarrow> (\<exists>r. an_avgMessagesPerConversation b = Finite r)
          \<and> ((case timeRange of
                 Some (range_start, range_end) \<Rightarrow>
                   filter (\<lambda>c. conv_created_at c \<le> range_end)
                     (filter (\<lambda>c. range_start \<le> conv_created_at c) (conversations ctx d))
               | None \<Rightarrow> conversations ctx d) = []
               \<longrightarrow> an_avgMessagesPerConversation b = Finite 0)) \<and>
   (call_fault call = None
      \<longrightarrow> (\<exists>b. conversation_getAnalytics ctx call timeRange d = Inr b))"
proof (intro conjI allI impI)
  fix a
  assume a: "customer_getAnalytics ctx call d = Inr a"
  show "\<exists>r. ca_conversionRate a = Finite r"
    unfolding customer_getAnalytics_rate [OF a] Let_def by simp
  show "ca_conversionRate a = Finite 0"
    if "filter (\<lambda>c. cust_stage c = StageLead) (customers ctx d) = []"
    unfolding customer_getAnalytics_rate [OF a] Let_def using that by simp
next
  fix b
  assume b: "conversation_getAnalytics ctx call timeRange d = Inr b"
  show "\<exists>r. an_avgMessagesPerConversation b = Finite r"
    unfolding conversation_getAnalytics_avg [OF b] Let_def by simp
  show "an_avgMessagesPerConversation b = Finite 0"
    if "(case timeRange of
                 Some (range_start, range_end) \<Rightarrow>
                   filter (\<lambda>c. conv_created_at c \<le> range_end)
                     (filter (\<lambda>c. range_start \<le> conv_created_at c) (conversations ctx d))
               | None \<Rightarrow> conversations ctx d) = []"
    unfolding conversation_getAnalytics_avg [OF b] Let_def using that by simp
next
  assume "call_fault call = None"
  then show "\<exists>a. customer_getAnalytics ctx call d = Inr a"
    by (rule customer_getAnalytics_returns)
next
  assume "call_fault call = None"
  then show "\<exists>b. conversation_getAnalytics ctx call timeRange d = Inr b"
    by (rule conversation_getAnalytics_returns)
qed

text \<open>
  On the example store gnymble has no customer in stage lead and percymd has no
  conversation: both ratios are 0.
\<close>

theorem analytics_zero_denominator_witness:
  "filter (\<lambda>c. cust_stage c = StageLead) (customers (ctx_of Gnymble) example_db) = [] \<and>
   (\<exists>a. customer_getAnalytics (ctx_of Gnymble) (ok_call [] 1) example_db = Inr a
          \<and> ca_conversionRate a = Finite 0) \<and>
   conversations (ctx_of Percymd) example_db = [] \<and>
   (\<exists>b. conversation_getAnalytics (ctx_of Percymd) (ok_call [] 1) None example_db = Inr b
          \<and> an_avgMessagesPerConversation b = Finite 0)"
proof -
  have ok: "call_fault (ok_call [] 1) = None"
    by (simp add: ok_call_def)
  have leads: "filter (\<lambda>c. cust_stage c = StageLead) (customers (ctx_of Gnymble) example_db) = []"
    by (simp add: customers_def example_defs)
  have rows: "(case None :: (timestamp \<times> timestamp) option of
                 Some (range_start, range_end) \<Rightarrow>
                   filter (\<lambda>c. conv_created_at c \<le> range_end)
                     (filter (\<lambda>c. range_start \<le> conv_created_at c)
                        (conversations (ctx_of Percymd) example_db))
               | None \<Rightarrow> conversations (ctx_of Percymd) example_db) = []"
    by (simp add: conversations_def example_defs)
  note t1 = analytics_zero_denominator
              [of "ctx_of Gnymble" "ok_call [] 1" example_db None]
  note t2 = analytics_zero_denominator
              [of "ctx_of Percymd" "ok_call [] 1" example_db None]
  from t1 ok leads
  have a: "\<exists>a. customer_getAnalytics (ctx_of Gnymble) (ok_call [] 1) example_db = Inr a
          \<and> ca_conversionRate a = Finite 0"
    by blast
  from t2 ok rows
  have b: "\<exists>b. conversation_getAnalytics (ctx_of Percymd) (ok_call [] 1) None example_db = Inr b
          \<and> an_avgMessagesPerConversation b = Finite 0"
    by blast
  from rows have c: "conversations (ctx_of Percymd) example_db = []"
    by simp
  show ?thesis
    by (intro conjI) (fact leads a c b)+
qed

end
